theory Spec2Isabelle
  imports Main "HOL-Library.List_Lexorder"
begin

chapter \<open>The FreshService knowledge-base extractor\<close>

text \<open>
  A shallow embedding of \<^verbatim>\<open>FSKB_ArticlesDownload_Code.py\<close> (class
  \<^verbatim>\<open>FreshServiceKBExtractor\<close>). The first part of the theory holds the model, in
  the order of the source; the second part holds the properties.
\<close>

section \<open>Python values\<close>

subsection \<open>Strings\<close>

text \<open>
  A Python \<^verbatim>\<open>str\<close> is a sequence of Unicode code points, and \<^verbatim>\<open>len\<close>,
  slicing and \<^verbatim>\<open>replace\<close> count code points. The source holds code points above
  255 (the replacement for \<^verbatim>\<open><li>\<close> is U+00E2 U+20AC U+00A2), so a string is a list
  of code points; \<open>ustr\<close> reads an ASCII literal.
\<close>

type_synonym pystr = "nat list"

definition ustr :: "string \<Rightarrow> pystr" where
  "ustr s = map of_char s"

text \<open>
  \<^verbatim>\<open>str.isspace\<close> for one code point: the whitespace of \<^verbatim>\<open>str.strip()\<close> and of
  \<^verbatim>\<open>\s\<close> in a \<^verbatim>\<open>str\<close> pattern.
\<close>

definition isspace :: "nat \<Rightarrow> bool" where
  "isspace c = (c \<in> set [9, 10, 11, 12, 13, 28, 29, 30, 31, 32, 133, 160, 5760,
      8192, 8193, 8194, 8195, 8196, 8197, 8198, 8199, 8200, 8201, 8202,
      8232, 8233, 8239, 8287, 12288])"

text \<open>\<^verbatim>\<open>s.strip()\<close>: leading and trailing whitespace removed.\<close>

definition strip :: "pystr \<Rightarrow> pystr" where
  "strip s = rev (dropWhile isspace (rev (dropWhile isspace s)))"

text \<open>\<^verbatim>\<open>s.replace(old, new)\<close> for an \<^verbatim>\<open>old\<close> of one character.\<close>

definition str_replace_char :: "nat \<Rightarrow> pystr \<Rightarrow> pystr \<Rightarrow> pystr" where
  "str_replace_char old new s = concat (map (\<lambda>c. if c = old then new else [c]) s)"

text \<open>\<^verbatim>\<open>s.startswith(prefix)\<close>.\<close>

definition startswith :: "pystr \<Rightarrow> pystr \<Rightarrow> bool" where
  "startswith s pre = (take (length pre) s = pre)"

subsection \<open>Values, dictionaries and exceptions\<close>

text \<open>
  The values of a parsed JSON document (\<^verbatim>\<open>response.json()\<close>). JSON numbers with a
  fraction are left out: the program never computes with them.
\<close>

datatype pyval =
    PNone
  | PBool bool
  | PInt int
  | PStr pystr
  | PList "pyval list"
  | PDict "(pystr \<times> pyval) list"

type_synonym pydict = "(pystr \<times> pyval) list"

text \<open>
  The exceptions the program can meet. All of them are subclasses of
  \<^verbatim>\<open>Exception\<close>; only \<open>RequestException\<close> is caught by
  \<^verbatim>\<open>except requests.RequestException\<close>.
\<close>

datatype exn =
    KeyError | TypeError | AttributeError | ValueError | UnicodeEncodeError
  | OSError | RequestException

text \<open>
  A string can hold a lone surrogate (code points D800 to DFFF; \<^verbatim>\<open>json.loads\<close> gives
  one for \<^verbatim>\<open>"\ud800"\<close>). Writing such a string to a file opened with
  \<^verbatim>\<open>encoding='utf-8'\<close> raises \<^verbatim>\<open>UnicodeEncodeError\<close>.
\<close>

definition encodable :: "pystr \<Rightarrow> bool" where
  "encodable s = list_all (\<lambda>c. \<not> (55296 \<le> c \<and> c \<le> 57343)) s"

text \<open>
  A path is handed to the system in the file system encoding (utf-8 with
  \<^verbatim>\<open>surrogateescape\<close>, which accepts the surrogates DC80 to DCFF only). What
  \<^verbatim>\<open>open\<close> and \<^verbatim>\<open>os.makedirs\<close> raise for a path before the system is asked:
  \<^verbatim>\<open>UnicodeEncodeError\<close> for a surrogate that cannot be encoded, else
  \<^verbatim>\<open>ValueError\<close> for an embedded null character, else \<^verbatim>\<open>FileNotFoundError\<close>
  (an \<^verbatim>\<open>OSError\<close>) for the empty path.
\<close>

definition path_error :: "pystr \<Rightarrow> exn option" where
  "path_error p =
     (if \<not> list_all (\<lambda>c. \<not> (55296 \<le> c \<and> c \<le> 57343) \<or> (56448 \<le> c \<and> c \<le> 56575)) p
      then Some UnicodeEncodeError
      else if 0 \<in> set p then Some ValueError
      else if p = [] then Some OSError
      else None)"

text \<open>Truth value of a value, as \<^verbatim>\<open>if x:\<close> tests it.\<close>

fun truthy :: "pyval \<Rightarrow> bool" where
  "truthy PNone = False"
| "truthy (PBool b) = b"
| "truthy (PInt i) = (i \<noteq> 0)"
| "truthy (PStr s) = (s \<noteq> [])"
| "truthy (PList xs) = (xs \<noteq> [])"
| "truthy (PDict d) = (d \<noteq> [])"

text \<open>\<^verbatim>\<open>d.get(key, default)\<close> and \<^verbatim>\<open>d[key]\<close> on a dictionary.\<close>

definition dict_get :: "pydict \<Rightarrow> pystr \<Rightarrow> pyval \<Rightarrow> pyval" where
  "dict_get d key dflt = (case map_of d key of Some v \<Rightarrow> v | None \<Rightarrow> dflt)"

definition dict_index :: "pydict \<Rightarrow> pystr \<Rightarrow> exn + pyval" where
  "dict_index d key = (case map_of d key of Some v \<Rightarrow> Inr v | None \<Rightarrow> Inl KeyError)"

text \<open>\<^verbatim>\<open>d[key] = v\<close>: the key keeps its place when present, and is appended otherwise.\<close>

fun dict_set :: "pydict \<Rightarrow> pystr \<Rightarrow> pyval \<Rightarrow> pydict" where
  "dict_set [] key v = [(key, v)]"
| "dict_set ((k, w) # d) key v = (if k = key then (k, v) # d else (k, w) # dict_set d key v)"

text \<open>
  \<^verbatim>\<open>x.get(key, default)\<close> on any value: only a dictionary has the method, every other
  value raises \<^verbatim>\<open>AttributeError\<close>.
\<close>

fun py_get :: "pyval \<Rightarrow> pystr \<Rightarrow> pyval \<Rightarrow> exn + pyval" where
  "py_get (PDict d) key dflt = Inr (dict_get d key dflt)"
| "py_get _ key dflt = Inl AttributeError"

text \<open>\<^verbatim>\<open>len(x)\<close> and \<^verbatim>\<open>for y in x\<close> on any value.\<close>

fun py_len :: "pyval \<Rightarrow> exn + int" where
  "py_len (PStr s) = Inr (int (length s))"
| "py_len (PList xs) = Inr (int (length xs))"
| "py_len (PDict d) = Inr (int (length d))"
| "py_len _ = Inl TypeError"

fun py_iter :: "pyval \<Rightarrow> exn + pyval list" where
  "py_iter (PStr s) = Inr (map (\<lambda>c. PStr [c]) s)"
| "py_iter (PList xs) = Inr xs"
| "py_iter (PDict d) = Inr (map (\<lambda>(k, v). PStr k) d)"
| "py_iter _ = Inl TypeError"

text \<open>
  \<^verbatim>\<open>x == n\<close> for an integer \<open>n\<close>: \<^verbatim>\<open>True == 1\<close> and \<^verbatim>\<open>False == 0\<close>
  hold in Python.
\<close>

fun py_eq_int :: "pyval \<Rightarrow> int \<Rightarrow> bool" where
  "py_eq_int (PInt i) n = (i = n)"
| "py_eq_int (PBool b) n = ((if b then 1 else 0) = n)"
| "py_eq_int _ n = False"

text \<open>Lists and dictionaries cannot be hashed: using one as a key raises \<^verbatim>\<open>TypeError\<close>.\<close>

fun hashable :: "pyval \<Rightarrow> bool" where
  "hashable (PList xs) = False"
| "hashable (PDict d) = False"
| "hashable _ = True"

text \<open>
  \<^verbatim>\<open>m.get(x, default)\<close> on a dictionary \<open>m\<close> whose keys are integers, for any value
  \<open>x\<close>.
\<close>

definition int_dict_get :: "(int \<times> pystr) list \<Rightarrow> pyval \<Rightarrow> pystr \<Rightarrow> exn + pystr" where
  "int_dict_get m x dflt =
     (if \<not> hashable x then Inl TypeError
      else case find (\<lambda>(k, v). py_eq_int x k) m of
             Some (k, v) \<Rightarrow> Inr v
           | None \<Rightarrow> Inr dflt)"

text \<open>
  The strings a value holds, as \<^verbatim>\<open>json.dump(..., ensure_ascii=False)\<close> writes them:
  the strings themselves, the elements of lists, the keys and the values of dictionaries.
\<close>

fun pyval_strings :: "pyval \<Rightarrow> pystr list" where
  "pyval_strings (PStr s) = [s]"
| "pyval_strings (PList xs) = concat (map pyval_strings xs)"
| "pyval_strings (PDict d) = concat (map (\<lambda>kv. fst kv # pyval_strings (snd kv)) d)"
| "pyval_strings _ = []"

text \<open>Decimal digits of a number, and \<^verbatim>\<open>str(i)\<close> for an integer.\<close>

fun digits :: "nat \<Rightarrow> pystr" where
  "digits n = (if n < 10 then [48 + n] else digits (n div 10) @ [48 + n mod 10])"

definition str_of_int :: "int \<Rightarrow> pystr" where
  "str_of_int i = (if i < 0 then 45 # digits (nat (- i)) else digits (nat i))"

text \<open>
  \<^verbatim>\<open>f"{x}"\<close>, that is \<^verbatim>\<open>str(x)\<close>. For a list or a dictionary Python prints its
  \<^verbatim>\<open>repr\<close>, which is not modelled: it is the parameter \<open>repr\<close>.
\<close>

fun py_str :: "(pyval \<Rightarrow> pystr) \<Rightarrow> pyval \<Rightarrow> pystr" where
  "py_str repr PNone = ustr ''None''"
| "py_str repr (PBool b) = (if b then ustr ''True'' else ustr ''False'')"
| "py_str repr (PInt i) = str_of_int i"
| "py_str repr (PStr s) = s"
| "py_str repr v = repr v"

text \<open>
  \<^verbatim>\<open>os.path.join(a, b)\<close> of \<^verbatim>\<open>posixpath\<close>: an absolute \<open>b\<close> replaces \<open>a\<close>.
\<close>

text \<open>
  \<^verbatim>\<open>os.path.dirname(p)\<close> of \<^verbatim>\<open>posixpath\<close>: what stands before the last slash,
  without the slashes at its end unless it is made of slashes only.
\<close>

definition dirname :: "pystr \<Rightarrow> pystr" where
  "dirname p =
     (let head = rev (dropWhile (\<lambda>c. c \<noteq> 47) (rev p))
      in if head \<noteq> [] \<and> \<not> list_all (\<lambda>c. c = 47) head
         then rev (dropWhile (\<lambda>c. c = 47) (rev head))
         else head)"

definition path_join :: "pystr \<Rightarrow> pystr \<Rightarrow> pystr" where
  "path_join a b =
     (if startswith b (ustr ''/'') then b
      else if a = [] \<or> last a = 47 then a @ b
      else a @ ustr ''/'' @ b)"

subsection \<open>Computations that can raise\<close>

text \<open>
  A value or an exception; \<open>and_then\<close> passes a value on and stops at an exception,
  and \<open>map_exn\<close> is a list comprehension whose body can raise: it stops at the first
  element that does.
\<close>

definition and_then :: "exn + 'a \<Rightarrow> ('a \<Rightarrow> exn + 'b) \<Rightarrow> exn + 'b" where
  "and_then r k = (case r of Inl e \<Rightarrow> Inl e | Inr x \<Rightarrow> k x)"

fun map_exn :: "('a \<Rightarrow> exn + 'b) \<Rightarrow> 'a list \<Rightarrow> exn + 'b list" where
  "map_exn f [] = Inr []"
| "map_exn f (x # xs) =
     (case f x of
        Inl e \<Rightarrow> Inl e
      | Inr y \<Rightarrow> (case map_exn f xs of Inl e \<Rightarrow> Inl e | Inr ys \<Rightarrow> Inr (y # ys)))"

section \<open>Filename sanitizer\<close>

text \<open>
  \<^verbatim>\<open>
  def sanitize_filename(self, filename):
      invalid_chars = '<>:"/\\\n?*'
      filename = filename.strip()
      for char in invalid_chars:
          filename = filename.replace(char, '_')
      return filename[:250]
  \<close>
  The nine characters are \<open>< > : " / \ newline ? *\<close> (code points 60, 62, 58, 34, 47,
  92, 10, 63, 42).
\<close>

definition invalid_chars :: pystr where
  "invalid_chars = ustr ''<>:'' @ [34] @ ustr ''/'' @ [92, 10] @ ustr ''?*''"

definition sanitize_filename :: "pystr \<Rightarrow> pystr" where
  "sanitize_filename filename =
     take 250 (fold (\<lambda>char fn. str_replace_char char (ustr ''_'') fn) invalid_chars (strip filename))"

text \<open>A string whose last character is whitespace.\<close>

definition ends_with_space :: "pystr \<Rightarrow> bool" where
  "ends_with_space s = (s \<noteq> [] \<and> isspace (last s))"

text \<open>A name of 251 characters: 249 times \<open>a\<close>, a space, and \<open>b\<close>.\<close>

definition long_name :: pystr where
  "long_name = replicate 249 97 @ ustr '' b''"

section \<open>The world outside the program\<close>

text \<open>
  The program talks to an HTTP server, a file system, a clock and the WeasyPrint
  renderer. What they answer is not decided by the program: it is read from a record
  of oracles, each indexed by the time of the call, so that the same request can be
  answered differently at different times. The state counts the calls (\<open>tick\<close>),
  logs the HTTP requests and holds the directories and files written.
\<close>

record request =
  url :: pystr
  params :: pydict

record response =
  status_code :: int
  json :: pyval

text \<open>
  What \<^verbatim>\<open>requests.get(download_url, stream=True)\<close> and the reading of the body
  give for an attachment: the connection fails, or a response arrives with a status
  and a body, and reading the body may break off (a \<^verbatim>\<open>RequestException\<close> of
  \<^verbatim>\<open>iter_content\<close>) after some of it has been written.
\<close>

datatype download = ConnectionFailed | Served int pystr bool

text \<open>
  The document \<open>create_html_document\<close> returns is one string, the fixed page template
  with these values filled in. The model keeps the values and leaves the template's
  fixed text out.
\<close>

record html_doc =
  doc_title :: pystr
  doc_id :: pyval
  doc_status :: pystr
  doc_created :: pyval
  doc_updated :: pyval
  doc_views :: pyval
  doc_thumbs_up :: pyval
  doc_thumbs_down :: pyval
  doc_attachments :: int
  doc_content :: pyval
  doc_attachment_items :: "pystr list option"
  doc_domain :: pystr
  doc_downloaded :: pystr
  doc_url :: pyval

text \<open>The table a \<^verbatim>\<open>csv.DictWriter\<close> writes: the header row and the data rows.\<close>

record csv_table =
  header :: "pystr list"
  rows :: "pyval list list"

datatype content =
    Empty
  | Prefix content
  | Text pystr
  | Html html_doc
  | Pdf html_doc
  | Json pydict
  | Csv csv_table
  | Binary pystr

record world =
  domain :: pystr
  http_get :: "nat \<Rightarrow> request \<Rightarrow> exn + response"
  fetch :: "nat \<Rightarrow> pystr \<Rightarrow> download"
  os_refuses :: "nat \<Rightarrow> pystr \<Rightarrow> bool"
  weasyprint_available :: bool
  weasyprint_fails :: "nat \<Rightarrow> bool"
  strftime :: "nat \<Rightarrow> pystr \<Rightarrow> pystr"
  isoformat :: "nat \<Rightarrow> pystr"
  repr :: "pyval \<Rightarrow> pystr"
  urljoin :: "pystr \<Rightarrow> pystr \<Rightarrow> pystr"
  charref_sub :: "pystr \<Rightarrow> pystr"

record state =
  tick :: nat
  requests :: "request list"
  dirs :: "pystr list"
  files :: "pystr \<rightharpoonup> content"

text \<open>
  A computation with effects takes the state and returns a value or an exception,
  and the new state. An exception does not undo the effects that came before it.
\<close>

type_synonym ('a, 'z) io = "'z state_scheme \<Rightarrow> (exn + 'a) \<times> 'z state_scheme"

definition return :: "'a \<Rightarrow> ('a, 'z) io" where
  "return x = (\<lambda>s. (Inr x, s))"

definition raise :: "exn \<Rightarrow> ('a, 'z) io" where
  "raise e = (\<lambda>s. (Inl e, s))"

definition lift :: "exn + 'a \<Rightarrow> ('a, 'z) io" where
  "lift r = (\<lambda>s. (r, s))"

definition bind :: "('a, 'z) io \<Rightarrow> ('a \<Rightarrow> ('b, 'z) io) \<Rightarrow> ('b, 'z) io" where
  "bind m k = (\<lambda>s. case m s of (Inl e, s') \<Rightarrow> (Inl e, s') | (Inr x, s') \<Rightarrow> k x s')"

text \<open>\<^verbatim>\<open>try: m except Exception: h\<close> and \<^verbatim>\<open>try: m except requests.RequestException: h\<close>.\<close>

definition try_except :: "('a, 'z) io \<Rightarrow> (exn \<Rightarrow> ('a, 'z) io) \<Rightarrow> ('a, 'z) io" where
  "try_except m h = (\<lambda>s. case m s of (Inl e, s') \<Rightarrow> h e s' | (Inr x, s') \<Rightarrow> (Inr x, s'))"

definition try_except_request :: "('a, 'z) io \<Rightarrow> ('a, 'z) io \<Rightarrow> ('a, 'z) io" where
  "try_except_request m h =
     (\<lambda>s. case m s of
        (Inl e, s') \<Rightarrow> if e = RequestException then h s' else (Inl e, s')
      | (Inr x, s') \<Rightarrow> (Inr x, s'))"

text \<open>The calls that leave the program.\<close>

definition requests_get :: "world \<Rightarrow> request \<Rightarrow> (response, 'z) io" where
  "requests_get w req =
     (\<lambda>s. (http_get w (tick s) req, s\<lparr>tick := tick s + 1, requests := requests s @ [req]\<rparr>))"

text \<open>
  \<^verbatim>\<open>os.makedirs(path, exist_ok=True)\<close>. The log \<open>dirs\<close> holds the paths named in
  the calls that succeeded; the directories above such a path are implied, and a call
  that fails can have created some of them before it failed.
\<close>

definition makedirs :: "world \<Rightarrow> pystr \<Rightarrow> (unit, 'z) io" where
  "makedirs w path =
     (\<lambda>s. case path_error path of
            Some e \<Rightarrow> (Inl e, s\<lparr>tick := tick s + 1\<rparr>)
          | None \<Rightarrow>
              if os_refuses w (tick s) path then (Inl OSError, s\<lparr>tick := tick s + 1\<rparr>)
              else (Inr (), s\<lparr>tick := tick s + 1, dirs := List.insert path (dirs s)\<rparr>))"

text \<open>
  \<^verbatim>\<open>open(path, 'w')\<close> (or \<^verbatim>\<open>'wb'\<close>) creates the file, or empties it.
\<close>

definition open_w :: "world \<Rightarrow> pystr \<Rightarrow> (unit, 'z) io" where
  "open_w w path =
     (\<lambda>s. case path_error path of
            Some e \<Rightarrow> (Inl e, s\<lparr>tick := tick s + 1\<rparr>)
          | None \<Rightarrow>
              if os_refuses w (tick s) path then (Inl OSError, s\<lparr>tick := tick s + 1\<rparr>)
              else (Inr (), s\<lparr>tick := tick s + 1, files := (files s)(path \<mapsto> Empty)\<rparr>))"

text \<open>
  One \<^verbatim>\<open>f.write\<close> to an open file. \<open>written\<close> are the strings the call writes to
  a text file (none for a binary file) and \<open>c\<close> is what the file holds afterwards.
  The strings are encoded first: one that cannot be encoded raises
  \<^verbatim>\<open>UnicodeEncodeError\<close> and nothing of the call is written. Then the system can
  refuse the write; the file is then left as it was.
\<close>

definition file_write :: "world \<Rightarrow> pystr \<Rightarrow> pystr list \<Rightarrow> content \<Rightarrow> (unit, 'z) io" where
  "file_write w path written c =
     (\<lambda>s. if \<not> list_all encodable written then (Inl UnicodeEncodeError, s\<lparr>tick := tick s + 1\<rparr>)
          else if os_refuses w (tick s) path then (Inl OSError, s\<lparr>tick := tick s + 1\<rparr>)
          else (Inr (), s\<lparr>tick := tick s + 1, files := (files s)(path \<mapsto> c)\<rparr>))"

text \<open>
  \<^verbatim>\<open>json.dump(obj, f, indent=2, ensure_ascii=False)\<close> writes the document piece by
  piece. When a string of \<open>obj\<close> cannot be encoded, the pieces before it have been
  written: the file holds a beginning of the document.
\<close>

definition json_dump :: "world \<Rightarrow> pystr \<Rightarrow> pydict \<Rightarrow> (unit, 'z) io" where
  "json_dump w path obj =
     (\<lambda>s. if \<not> list_all encodable (pyval_strings (PDict obj))
          then (Inl UnicodeEncodeError,
                s\<lparr>tick := tick s + 1, files := (files s)(path \<mapsto> Prefix (Json obj))\<rparr>)
          else if os_refuses w (tick s) path then (Inl OSError, s\<lparr>tick := tick s + 1\<rparr>)
          else (Inr (), s\<lparr>tick := tick s + 1, files := (files s)(path \<mapsto> Json obj)\<rparr>))"

text \<open>
  \<^verbatim>\<open>requests.get(download_url, stream=True)\<close> for an attachment, with the reading of
  its body.
\<close>

definition requests_get_stream :: "world \<Rightarrow> pystr \<Rightarrow> (int \<times> pystr \<times> bool, 'z) io" where
  "requests_get_stream w download_url =
     (\<lambda>s. (case fetch w (tick s) download_url of
               ConnectionFailed \<Rightarrow> Inl RequestException
             | Served status received complete \<Rightarrow> Inr (status, received, complete),
             s\<lparr>tick := tick s + 1, requests := requests s @ [\<lparr>url = download_url, params = []\<rparr>]\<rparr>))"

text \<open>Reading the clock and the other oracles at the time of the state.\<close>

definition at_tick :: "(nat \<Rightarrow> exn + 'a) \<Rightarrow> ('a, 'z) io" where
  "at_tick f = (\<lambda>s. (f (tick s), s))"

definition base_url :: "world \<Rightarrow> pystr" where
  "base_url w = ustr ''https://'' @ domain w @ ustr ''.freshservice.com/api/v2''"

section \<open>API client\<close>

text \<open>
  \<^verbatim>\<open>
  def get_categories(self):
      url = f"{self.base_url}/solutions/categories"
      response = requests.get(url, headers=self.headers, verify=False)
      if response.status_code == 200:
          return response.json().get("categories", [])
      elif response.status_code == 403:
          logging.error("Permission denied for categories. Check KB access.")
          return []
  \<close>
  A Python function whose last statement is an \<^verbatim>\<open>if\<close> without \<^verbatim>\<open>else\<close> returns
  \<^verbatim>\<open>None\<close> when no branch is taken.
\<close>

definition get_categories :: "world \<Rightarrow> (pyval, 'z) io" where
  "get_categories w =
     bind (requests_get w \<lparr>url = base_url w @ ustr ''/solutions/categories'', params = []\<rparr>)
       (\<lambda>response.
          if status_code response = 200
          then lift (py_get (json response) (ustr ''categories'') (PList []))
          else if status_code response = 403 then return (PList [])
          else return PNone)"

definition get_folders :: "world \<Rightarrow> pyval \<Rightarrow> (pyval, 'z) io" where
  "get_folders w category_id =
     bind (requests_get w \<lparr>url = base_url w @ ustr ''/solutions/folders'',
                           params = [(ustr ''category_id'', category_id)]\<rparr>)
       (\<lambda>response.
          if status_code response = 200
          then lift (py_get (json response) (ustr ''folders'') (PList []))
          else if status_code response = 403 then return (PList [])
          else return PNone)"

text \<open>
  \<^verbatim>\<open>
  def get_articles(self, folder_id=None, category_id=None):
      articles = []
      page = 1
      while True:
          url = f"{self.base_url}/solutions/articles"
          params = {'page': page, 'per_page': 100}
          if folder_id:
              params["folder_id"] = folder_id
          elif category_id:
              params["category_id"] = category_id
          response = requests.get(url, headers=self.headers, params=params, verify=False)
          if response.status_code == 200:
              batch = response.json().get("articles", [])
              articles.extend(batch)
              if len(batch) < 100:
                  break
              page += 1
          elif response.status_code == 403:
              break
          else:
              break
      return articles
  \<close>
  The loop has no bound of its own: it ends when a page is short or a request fails.
  A run that never ends is the value \<open>None\<close>.
\<close>

definition articles_request :: "world \<Rightarrow> pyval \<Rightarrow> pyval \<Rightarrow> int \<Rightarrow> request" where
  "articles_request w folder_id category_id page =
     \<lparr>url = base_url w @ ustr ''/solutions/articles'',
      params = [(ustr ''page'', PInt page), (ustr ''per_page'', PInt 100)] @
        (if truthy folder_id then [(ustr ''folder_id'', folder_id)]
         else if truthy category_id then [(ustr ''category_id'', category_id)]
         else [])\<rparr>"

partial_function (option) get_articles_loop ::
  "world \<Rightarrow> pyval \<Rightarrow> pyval \<Rightarrow> pyval list \<Rightarrow> int \<Rightarrow> 'z state_scheme
     \<Rightarrow> ((exn + pyval list) \<times> 'z state_scheme) option"
where
  "get_articles_loop w folder_id category_id articles page s =
     (case requests_get w (articles_request w folder_id category_id page) s of
        (Inl e, s') \<Rightarrow> Some (Inl e, s')
      | (Inr response, s') \<Rightarrow>
          if status_code response = 200 then
            (case py_get (json response) (ustr ''articles'') (PList []) of
               Inl e \<Rightarrow> Some (Inl e, s')
             | Inr batch \<Rightarrow>
                 (case py_iter batch of
                    Inl e \<Rightarrow> Some (Inl e, s')
                  | Inr items \<Rightarrow>
                      (case py_len batch of
                         Inl e \<Rightarrow> Some (Inl e, s')
                       | Inr n \<Rightarrow>
                           if n < 100 then Some (Inr (articles @ items), s')
                           else get_articles_loop w folder_id category_id
                                  (articles @ items) (page + 1) s')))
          else if status_code response = 403 then Some (Inr articles, s')
          else Some (Inr articles, s'))"

definition get_articles ::
  "world \<Rightarrow> pyval \<Rightarrow> pyval \<Rightarrow> 'z state_scheme \<Rightarrow> ((exn + pyval list) \<times> 'z state_scheme) option"
where
  "get_articles w folder_id category_id s = get_articles_loop w folder_id category_id [] 1 s"

text \<open>
  \<^verbatim>\<open>
  def get_article_details(self, article_id):
      url = f"{self.base_url}/solutions/articles/{article_id}"
      try:
          response = requests.get(url, headers=self.headers, verify=False)
          if response.status_code == 200:
              return response.json().get('article')
          else:
              return None
      except requests.RequestException as e:
          return None
  \<close>
\<close>

definition get_article_details :: "world \<Rightarrow> pyval \<Rightarrow> (pyval, 'z) io" where
  "get_article_details w article_id =
     try_except_request
       (bind (requests_get w
                \<lparr>url = base_url w @ ustr ''/solutions/articles/'' @ py_str (repr w) article_id,
                 params = []\<rparr>)
          (\<lambda>response.
             if status_code response = 200
             then lift (py_get (json response) (ustr ''article'') PNone)
             else return PNone))
       (return PNone)"

section \<open>Rich-text converter\<close>

subsection \<open>Regular expressions\<close>

text \<open>
  The patterns of \<open>html_to_text\<close> are sequences of items, each one character wide (a
  literal, a class, a negated class or \<^verbatim>\<open>\s\<close>) and taken once, optionally
  (\<^verbatim>\<open>?\<close>), any number of times (\<^verbatim>\<open>*\<close>) or at least once (\<^verbatim>\<open>+\<close>).
\<close>

datatype atom = Lit nat | OneOf "nat list" | NoneOf "nat list" | Space

datatype quant = One | Opt | Star | Plus

type_synonym regex = "(atom \<times> quant) list"

text \<open>
  Under \<^verbatim>\<open>re.IGNORECASE\<close> an ASCII character of the pattern matches itself, the same
  letter in the other case, and for \<open>i\<close>, \<open>k\<close> and \<open>s\<close> the code points U+0130 and
  U+0131, U+212A and U+017F.
\<close>

definition ignorecase_variants :: "nat \<Rightarrow> nat list" where
  "ignorecase_variants p =
     [p] @ (if 65 \<le> p \<and> p \<le> 90 then [p + 32] else [])
         @ (if 97 \<le> p \<and> p \<le> 122 then [p - 32] else [])
         @ (if p = 73 \<or> p = 105 then [304, 305] else [])
         @ (if p = 75 \<or> p = 107 then [8490] else [])
         @ (if p = 83 \<or> p = 115 then [383] else [])"

fun atom_matches :: "atom \<Rightarrow> nat \<Rightarrow> bool" where
  "atom_matches (Lit p) c = (c \<in> set (ignorecase_variants p))"
| "atom_matches (OneOf ps) c = list_ex (\<lambda>p. c \<in> set (ignorecase_variants p)) ps"
| "atom_matches (NoneOf ps) c = (\<not> list_ex (\<lambda>p. c \<in> set (ignorecase_variants p)) ps)"
| "atom_matches Space c = isspace c"

text \<open>The first of a list of attempts that succeeds.\<close>

fun first_some :: "'a option list \<Rightarrow> 'a option" where
  "first_some [] = None"
| "first_some (None # xs) = first_some xs"
| "first_some (Some x # xs) = Some x"

text \<open>
  The match of a pattern at the start of a string, as the backtracking matcher of
  \<^verbatim>\<open>re\<close> finds it: the number of characters matched. A repeated item takes as many
  characters as it can and gives them back one at a time while the rest of the pattern
  fails.
\<close>

fun match_here :: "regex \<Rightarrow> pystr \<Rightarrow> nat option" where
  "match_here [] s = Some 0"
| "match_here ((a, One) # r) s =
     (case s of
        [] \<Rightarrow> None
      | c # cs \<Rightarrow> if atom_matches a c then map_option Suc (match_here r cs) else None)"
| "match_here ((a, Opt) # r) s =
     first_some (map (\<lambda>k. map_option ((+) k) (match_here r (drop k s)))
       (rev [0..<Suc (min 1 (length (takeWhile (atom_matches a) s)))]))"
| "match_here ((a, Star) # r) s =
     first_some (map (\<lambda>k. map_option ((+) k) (match_here r (drop k s)))
       (rev [0..<Suc (length (takeWhile (atom_matches a) s))]))"
| "match_here ((a, Plus) # r) s =
     first_some (map (\<lambda>k. map_option ((+) k) (match_here r (drop k s)))
       (rev [1..<Suc (length (takeWhile (atom_matches a) s))]))"

text \<open>
  \<^verbatim>\<open>re.sub(pattern, repl, s, flags=re.IGNORECASE)\<close>: the matches are found from left to
  right and do not overlap. The number is how many characters of the last match are
  still to be skipped. No pattern of the program matches the empty string, and a
  match of length 0 is read as no match.
\<close>

fun re_sub_from :: "regex \<Rightarrow> pystr \<Rightarrow> nat \<Rightarrow> pystr \<Rightarrow> pystr" where
  "re_sub_from r repl k [] = []"
| "re_sub_from r repl (Suc k) (c # cs) = re_sub_from r repl k cs"
| "re_sub_from r repl 0 (c # cs) =
     (case match_here r (c # cs) of
        Some (Suc n) \<Rightarrow> repl @ re_sub_from r repl n cs
      | _ \<Rightarrow> c # re_sub_from r repl 0 cs)"

definition re_sub :: "regex \<Rightarrow> pystr \<Rightarrow> pystr \<Rightarrow> pystr" where
  "re_sub r repl s = re_sub_from r repl 0 s"

text \<open>A pattern of literal characters.\<close>

definition lit :: "string \<Rightarrow> regex" where
  "lit s = map (\<lambda>c. (Lit (of_char c), One)) s"

subsection \<open>Plain text\<close>

text \<open>
  \<^verbatim>\<open>
  def html_to_text(self, html_content):
      if not html_content:
          return ""
      replacements = [
          (r'<br\s*/?>', '\n'), (r'<p>', '\n'), (r'</p>', '\n\n'),
          (r'<h[1-6]>', '\n\n** '), (r'</h[1-6]>', ' **\n\n'),
          (r'<li>', '<U+00E2><U+20AC><U+00A2> '), (r'</li>', '\n'),
          (r'<ul>', '\n'), (r'</ul>', '\n'), (r'<ol>', '\n'), (r'</ol>', '\n'),
          (r'<strong>', '**'), (r'</strong>', '**'), (r'<em>', '*'), (r'</em>', '*'),
          (r'<code>', '`'), (r'</code>', '`'),
          (r'<pre>', '\n```\n'), (r'</pre>', '\n```\n'),
          (r'<blockquote>', '\n> '), (r'</blockquote>', '\n'),
      ]
      text = html_content
      for pattern, replacement in replacements:
          text = re.sub(pattern, replacement, text, flags=re.IGNORECASE)
      text = re.sub(r'<[^>]+>', '', text)
      text = html_lib.unescape(text)
      text = re.sub(r'\n\s*\n', '\n\n', text)
      text = re.sub(r'[ \t]+', ' ', text)
      return text.strip()
  \<close>
  The newline is code point 10, the backquote 96, and the replacement for
  \<^verbatim>\<open><li>\<close> is the three code points 226, 8364, 162 and a space, as the source file
  has them.
\<close>

definition replacements :: "(regex \<times> pystr) list" where
  "replacements =
     [(lit ''<br'' @ [(Space, Star), (Lit 47, Opt)] @ lit ''>'', [10]),
      (lit ''<p>'', [10]),
      (lit ''</p>'', [10, 10]),
      (lit ''<h'' @ [(OneOf (ustr ''123456''), One)] @ lit ''>'', [10, 10] @ ustr ''** ''),
      (lit ''</h'' @ [(OneOf (ustr ''123456''), One)] @ lit ''>'', ustr '' **'' @ [10, 10]),
      (lit ''<li>'', [226, 8364, 162, 32]),
      (lit ''</li>'', [10]),
      (lit ''<ul>'', [10]),
      (lit ''</ul>'', [10]),
      (lit ''<ol>'', [10]),
      (lit ''</ol>'', [10]),
      (lit ''<strong>'', ustr ''**''),
      (lit ''</strong>'', ustr ''**''),
      (lit ''<em>'', ustr ''*''),
      (lit ''</em>'', ustr ''*''),
      (lit ''<code>'', [96]),
      (lit ''</code>'', [96]),
      (lit ''<pre>'', [10, 96, 96, 96, 10]),
      (lit ''</pre>'', [10, 96, 96, 96, 10]),
      (lit ''<blockquote>'', [10] @ ustr ''> ''),
      (lit ''</blockquote>'', [10])]"

text \<open>
  \<^verbatim>\<open>html.unescape(s)\<close> of the standard library returns \<open>s\<close> itself when it holds no
  \<^verbatim>\<open>&\<close>; otherwise it replaces the character references, which is the world's
  \<open>charref_sub\<close>.
\<close>

definition unescape :: "world \<Rightarrow> pystr \<Rightarrow> pystr" where
  "unescape w s = (if 38 \<notin> set s then s else charref_sub w s)"

definition html_to_text_str :: "world \<Rightarrow> pystr \<Rightarrow> pystr" where
  "html_to_text_str w html_content =
     (let text1 = fold (\<lambda>(pattern, replacement) t. re_sub pattern replacement t)
                    replacements html_content;
          text2 = re_sub (lit ''<'' @ [(NoneOf [62], Plus)] @ lit ''>'') [] text1;
          text3 = unescape w text2;
          text4 = re_sub [(Lit 10, One), (Space, Star), (Lit 10, One)] [10, 10] text3;
          text5 = re_sub [(OneOf [32, 9], Plus)] [32] text4
      in strip text5)"

text \<open>
  The argument is any value: one that is not true gives the empty string, and
  \<^verbatim>\<open>re.sub\<close> raises \<^verbatim>\<open>TypeError\<close> on a true value that is not a string.
\<close>

definition html_to_text :: "world \<Rightarrow> pyval \<Rightarrow> exn + pystr" where
  "html_to_text w html_content =
     (if \<not> truthy html_content then Inr []
      else case html_content of
             PStr s \<Rightarrow> Inr (html_to_text_str w s)
           | _ \<Rightarrow> Inl TypeError)"

section \<open>Document shell and metadata\<close>

text \<open>
  \<^verbatim>\<open>html.escape(s)\<close> of the standard library replaces \<^verbatim>\<open>&\<close>, \<^verbatim>\<open><\<close>,
  \<^verbatim>\<open>>\<close>, the double quote (34) and the single quote (39), in this order, by calls of
  \<^verbatim>\<open>s.replace\<close>; a value that is not a string has no such method.
\<close>

definition html_escape_str :: "pystr \<Rightarrow> pystr" where
  "html_escape_str s =
     str_replace_char 39 (ustr ''&#x27;'')
       (str_replace_char 34 (ustr ''&quot;'')
         (str_replace_char 62 (ustr ''&gt;'')
           (str_replace_char 60 (ustr ''&lt;'')
             (str_replace_char 38 (ustr ''&amp;'') s))))"

fun html_escape :: "pyval \<Rightarrow> exn + pystr" where
  "html_escape (PStr s) = Inr (html_escape_str s)"
| "html_escape _ = Inl AttributeError"

text \<open>\<^verbatim>\<open>status_map = {1: "Published", 2: "Draft"}\<close>\<close>

definition status_map :: "(int \<times> pystr) list" where
  "status_map = [(1, ustr ''Published''), (2, ustr ''Draft'')]"

text \<open>
  \<^verbatim>\<open>
  def create_html_document(self, article, content, for_pdf=False):
      attachments = article.get('attachments', [])
      attachments_html = ""
      if attachments and for_pdf:
          items = ''.join([f'<div ...>... {html_lib.escape(att.get("name", "Unnamed"))}</div>'
                           for att in attachments])
          attachments_html = f'''... Article Attachments ({len(attachments)}): ... {items} ...'''
      status_map = {1: "Published", 2: "Draft"}
      status = status_map.get(article.get('status'), "Unknown")
      html_template = f"""...
          <title>{html_lib.escape(article.get('title', 'Untitled'))}</title> ...
          <h1>{html_lib.escape(article.get('title', 'Untitled'))}</h1> ...
          Article ID: {article.get('id', 'N/A')}  Status: {status}
          Created: {article.get('created_at', 'N/A')}  Updated: {article.get('updated_at', 'N/A')}
          Views: {article.get('view_count', 0)}  Helpful Votes: {article.get('thumbs_up', 0)}
          Not Helpful: {article.get('thumbs_down', 0)}  Attachments: {len(attachments)}
          <div class="content">{content}</div>  {attachments_html}
          ... {self.domain}.freshservice.com
          Downloaded on {datetime.now().strftime('%Y-%m-%d %H:%M:%S')} ... {article.get('url', 'N/A')}
      """
      return html_template
  \<close>
  The values are computed in the order of the source, so that the first exception of
  the source is the exception of the model. \<open>t\<close> is the time of the call.
\<close>

definition create_html_document :: "world \<Rightarrow> nat \<Rightarrow> pyval \<Rightarrow> pyval \<Rightarrow> bool \<Rightarrow> exn + html_doc" where
  "create_html_document w t article content for_pdf =
     and_then (py_get article (ustr ''attachments'') (PList [])) (\<lambda>attachments.
     and_then
       (if truthy attachments \<and> for_pdf
        then and_then (py_iter attachments) (\<lambda>atts.
             and_then (map_exn (\<lambda>att. and_then (py_get att (ustr ''name'') (PStr (ustr ''Unnamed'')))
                                         html_escape) atts) (\<lambda>items.
             and_then (py_len attachments) (\<lambda>n. Inr (Some items))))
        else Inr None) (\<lambda>attachments_html.
     and_then (py_get article (ustr ''status'') PNone) (\<lambda>status_value.
     and_then (int_dict_get status_map status_value (ustr ''Unknown'')) (\<lambda>status.
     and_then (py_get article (ustr ''title'') (PStr (ustr ''Untitled''))) (\<lambda>title_value.
     and_then (html_escape title_value) (\<lambda>title.
     and_then (py_get article (ustr ''id'') (PStr (ustr ''N/A''))) (\<lambda>article_id.
     and_then (py_get article (ustr ''created_at'') (PStr (ustr ''N/A''))) (\<lambda>created_at.
     and_then (py_get article (ustr ''updated_at'') (PStr (ustr ''N/A''))) (\<lambda>updated_at.
     and_then (py_get article (ustr ''view_count'') (PInt 0)) (\<lambda>view_count.
     and_then (py_get article (ustr ''thumbs_up'') (PInt 0)) (\<lambda>thumbs_up.
     and_then (py_get article (ustr ''thumbs_down'') (PInt 0)) (\<lambda>thumbs_down.
     and_then (py_len attachments) (\<lambda>n.
     and_then (py_get article (ustr ''url'') (PStr (ustr ''N/A''))) (\<lambda>article_url.
       Inr \<lparr>doc_title = title, doc_id = article_id, doc_status = status,
            doc_created = created_at, doc_updated = updated_at, doc_views = view_count,
            doc_thumbs_up = thumbs_up, doc_thumbs_down = thumbs_down,
            doc_attachments = n, doc_content = content,
            doc_attachment_items = attachments_html, doc_domain = domain w,
            doc_downloaded = strftime w t (ustr ''%Y-%m-%d %H:%M:%S''),
            doc_url = article_url\<rparr>))))))))))))))"

text \<open>
  The strings filled into the template, which decide whether the document can be
  encoded (the fixed text of the template and the numbers can).
\<close>

definition html_doc_strings :: "world \<Rightarrow> html_doc \<Rightarrow> pystr list" where
  "html_doc_strings w d =
     [doc_title d, py_str (repr w) (doc_id d), doc_status d,
      py_str (repr w) (doc_created d), py_str (repr w) (doc_updated d),
      py_str (repr w) (doc_views d), py_str (repr w) (doc_thumbs_up d),
      py_str (repr w) (doc_thumbs_down d), py_str (repr w) (doc_content d)]
     @ (case doc_attachment_items d of None \<Rightarrow> [] | Some items \<Rightarrow> items)
     @ [doc_domain d, doc_downloaded d, py_str (repr w) (doc_url d)]"

text \<open>
  \<^verbatim>\<open>
  def create_pdf_document(self, article, content, output_path):
      if not WEASYPRINT_AVAILABLE:
          return False
      try:
          html_content = self.create_html_document(article, content, for_pdf=True)
          ...
          HTML(string=html_content).write_pdf(output_path, stylesheets=[pdf_css], ...)
          return True
      except Exception as e:
          return False
  \<close>
  WeasyPrint either writes the file or raises; a rendering that fails leaves no file,
  and a path the system cannot take makes it raise.
\<close>

definition create_pdf_document :: "world \<Rightarrow> pyval \<Rightarrow> pyval \<Rightarrow> pystr \<Rightarrow> (bool, 'z) io" where
  "create_pdf_document w article content output_path =
     (if \<not> weasyprint_available w then return False
      else try_except
             (\<lambda>s. case create_html_document w (tick s) article content True of
                    Inl e \<Rightarrow> (Inl e, s)
                  | Inr html_content \<Rightarrow>
                      (case path_error output_path of
                         Some e \<Rightarrow> (Inl e, s\<lparr>tick := tick s + 1\<rparr>)
                       | None \<Rightarrow>
                           if weasyprint_fails w (tick s)
                           then (Inl OSError, s\<lparr>tick := tick s + 1\<rparr>)
                           else (Inr True, s\<lparr>tick := tick s + 1,
                                   files := (files s)(output_path \<mapsto> Pdf html_content)\<rparr>)))
             (\<lambda>e. return False))"

text \<open>
  \<^verbatim>\<open>
  def extract_article_metadata(self, article):
      return {
          "id": article.get("id"),
          "title": article.get("title"),
          "status": "Published" if article.get("status") == 1 else "Draft",
          "folder_id": article.get("folder_id"),
          "category_id": article.get("category_id"),
          "created_at": article.get("created_at"),
          "updated_at": article.get("updated_at"),
          "view_count": article.get("view_count"),
          "thumbs_up": article.get("thumbs_up"),
          "thumbs_down": article.get("thumbs_down"),
          "url": article.get("url"),
          "tags": article.get("tags", []),
          "attachments_count": len(article.get("attachments", [])),
          "download_timestamp": datetime.now().isoformat()
      }
  \<close>
\<close>

definition extract_article_metadata :: "world \<Rightarrow> nat \<Rightarrow> pyval \<Rightarrow> exn + pydict" where
  "extract_article_metadata w t article =
     and_then (py_get article (ustr ''id'') PNone) (\<lambda>article_id.
     and_then (py_get article (ustr ''title'') PNone) (\<lambda>title.
     and_then (py_get article (ustr ''status'') PNone) (\<lambda>status.
     and_then (py_get article (ustr ''folder_id'') PNone) (\<lambda>folder_id.
     and_then (py_get article (ustr ''category_id'') PNone) (\<lambda>category_id.
     and_then (py_get article (ustr ''created_at'') PNone) (\<lambda>created_at.
     and_then (py_get article (ustr ''updated_at'') PNone) (\<lambda>updated_at.
     and_then (py_get article (ustr ''view_count'') PNone) (\<lambda>view_count.
     and_then (py_get article (ustr ''thumbs_up'') PNone) (\<lambda>thumbs_up.
     and_then (py_get article (ustr ''thumbs_down'') PNone) (\<lambda>thumbs_down.
     and_then (py_get article (ustr ''url'') PNone) (\<lambda>article_url.
     and_then (py_get article (ustr ''tags'') (PList [])) (\<lambda>tags.
     and_then (py_get article (ustr ''attachments'') (PList [])) (\<lambda>attachments.
     and_then (py_len attachments) (\<lambda>n.
       Inr [(ustr ''id'', article_id),
            (ustr ''title'', title),
            (ustr ''status'', PStr (if py_eq_int status 1 then ustr ''Published'' else ustr ''Draft'')),
            (ustr ''folder_id'', folder_id),
            (ustr ''category_id'', category_id),
            (ustr ''created_at'', created_at),
            (ustr ''updated_at'', updated_at),
            (ustr ''view_count'', view_count),
            (ustr ''thumbs_up'', thumbs_up),
            (ustr ''thumbs_down'', thumbs_down),
            (ustr ''url'', article_url),
            (ustr ''tags'', tags),
            (ustr ''attachments_count'', PInt n),
            (ustr ''download_timestamp'', PStr (isoformat w t))]))))))))))))))"

section \<open>Bulk export to CSV\<close>

text \<open>
  \<^verbatim>\<open>
  def export_to_csv(self, articles, filename=None):
      if not filename:
          timestamp = datetime.now().strftime("%Y%m%d_%H%M%S")
          filename = f"freshservice_kb_export_{timestamp}.csv"
      if articles:
          fieldnames = set()
          for article in articles:
              fieldnames.update(article.keys())
          fieldnames = sorted(list(fieldnames))
          with open(filename, 'w', newline='', encoding='utf-8') as csvfile:
              writer = csv.DictWriter(csvfile, fieldnames=fieldnames)
              writer.writeheader()
              writer.writerows(articles)
      return filename
  \<close>
  \<^verbatim>\<open>sorted\<close> orders strings by their code points, which is the lexicographic order
  of the lists. A \<^verbatim>\<open>DictWriter\<close> (with its defaults \<^verbatim>\<open>restval=''\<close> and
  \<^verbatim>\<open>extrasaction='raise'\<close>) turns a dictionary into a row by
  \<^verbatim>\<open>
  def _dict_to_list(self, rowdict):
      if self.extrasaction == "raise":
          wrong_fields = rowdict.keys() - self.fieldnames
          if wrong_fields:
              raise ValueError(...)
      return (rowdict.get(key, self.restval) for key in self.fieldnames)
  \<close>
  The cells of the table are the values before the writer prints them. The writer
  prints \<^verbatim>\<open>None\<close> as the empty string and every other value as \<^verbatim>\<open>str\<close> does, and
  writes each row with one \<^verbatim>\<open>write\<close>: when a row cannot be encoded, the header
  and the rows before it have been written.
\<close>

definition dict_to_list :: "pystr list \<Rightarrow> pydict \<Rightarrow> exn + pyval list" where
  "dict_to_list fieldnames rowdict =
     (if list_ex (\<lambda>key. key \<notin> set fieldnames) (map fst rowdict) then Inl ValueError
      else Inr (map (\<lambda>key. dict_get rowdict key (PStr [])) fieldnames))"

definition cell_text :: "world \<Rightarrow> pyval \<Rightarrow> pystr" where
  "cell_text w v = (case v of PNone \<Rightarrow> [] | _ \<Rightarrow> py_str (repr w) v)"

definition csv_fieldnames :: "pydict list \<Rightarrow> pystr list" where
  "csv_fieldnames articles =
     sorted_list_of_set
       (fold (\<lambda>article fieldnames. fieldnames \<union> set (map fst article)) articles {})"

text \<open>\<^verbatim>\<open>writer.writerows(rowdicts)\<close>; \<open>sofar\<close> are the rows already in the file.\<close>

fun writerows ::
  "world \<Rightarrow> pystr \<Rightarrow> pystr list \<Rightarrow> pydict list \<Rightarrow> pyval list list \<Rightarrow> 'z state_scheme
     \<Rightarrow> (exn + unit) \<times> 'z state_scheme"
where
  "writerows w path fieldnames [] sofar s = (Inr (), s)"
| "writerows w path fieldnames (rowdict # rest) sofar s =
     (case dict_to_list fieldnames rowdict of
        Inl e \<Rightarrow> (Inl e, s)
      | Inr row \<Rightarrow>
          (case file_write w path (map (cell_text w) row)
                  (Csv \<lparr>header = fieldnames, rows = sofar @ [row]\<rparr>) s of
             (Inl e, s') \<Rightarrow> (Inl e, s')
           | (Inr _, s') \<Rightarrow> writerows w path fieldnames rest (sofar @ [row]) s'))"

definition default_csv_name :: "world \<Rightarrow> nat \<Rightarrow> pystr" where
  "default_csv_name w t =
     ustr ''freshservice_kb_export_'' @ strftime w t (ustr ''%Y%m%d_%H%M%S'') @ ustr ''.csv''"

text \<open>The file name the export uses: the one given, if it is not empty.\<close>

definition csv_filename :: "world \<Rightarrow> pystr option \<Rightarrow> nat \<Rightarrow> pystr" where
  "csv_filename w filename t =
     (case filename of
        Some name \<Rightarrow> if name \<noteq> [] then name else default_csv_name w t
      | None \<Rightarrow> default_csv_name w t)"

definition export_to_csv :: "world \<Rightarrow> pydict list \<Rightarrow> pystr option \<Rightarrow> (pystr, 'z) io" where
  "export_to_csv w articles filename =
     (\<lambda>s.
        let filename = csv_filename w filename (tick s)
        in if articles \<noteq> [] then
             (let fieldnames = csv_fieldnames articles in
              bind (open_w w filename) (\<lambda>_.
              bind (file_write w filename fieldnames (Csv \<lparr>header = fieldnames, rows = []\<rparr>)) (\<lambda>_.
              bind (writerows w filename fieldnames articles []) (\<lambda>_.
              return filename)))) s
           else return filename s)"

section \<open>Attachment downloader\<close>

text \<open>
  \<^verbatim>\<open>
  def download_attachment(self, attachment, download_path):
      try:
          download_url = attachment.get('attachment_url')
          if not download_url:
              return False
          if not download_url.startswith('http'):
              download_url = urljoin(self.base_url, download_url)
          file_headers = self.headers.copy()
          file_headers.pop('Content-Type', None)
          response = requests.get(download_url, headers=file_headers, stream=True, verify=False)
          response.raise_for_status()
          os.makedirs(os.path.dirname(download_path), exist_ok=True)
          with open(download_path, 'wb') as f:
              for chunk in response.iter_content(chunk_size=8192):
                  f.write(chunk)
          return True
      except requests.exceptions.RequestException as e:
          return False
  \<close>
  \<^verbatim>\<open>raise_for_status\<close> raises for the statuses 400 to 599. An exception that is not a
  \<^verbatim>\<open>RequestException\<close> (a value without the method, a refusal of the file system)
  leaves the function.
\<close>

definition download_attachment :: "world \<Rightarrow> pyval \<Rightarrow> pystr \<Rightarrow> (bool, 'z) io" where
  "download_attachment w attachment download_path =
     try_except_request
       (bind (lift (py_get attachment (ustr ''attachment_url'') PNone)) (\<lambda>download_url.
          if \<not> truthy download_url then return False
          else
            bind (lift (case download_url of
                          PStr u \<Rightarrow> Inr (if \<not> startswith u (ustr ''http'')
                                          then urljoin w (base_url w) u else u)
                        | _ \<Rightarrow> Inl AttributeError)) (\<lambda>download_url.
            bind (requests_get_stream w download_url) (\<lambda>(status, received, complete).
              if 400 \<le> status \<and> status < 600 then raise RequestException
              else
                bind (makedirs w (dirname download_path)) (\<lambda>_.
                bind (open_w w download_path) (\<lambda>_.
                bind (file_write w download_path [] (Binary received)) (\<lambda>_.
                if complete then return True else raise RequestException)))))))
       (return False)"

section \<open>Article materializer\<close>

text \<open>The argument of \<open>sanitize_filename\<close> is any value: only a string has \<^verbatim>\<open>strip\<close>.\<close>

fun sanitize_filename_value :: "pyval \<Rightarrow> exn + pystr" where
  "sanitize_filename_value (PStr s) = Inr (sanitize_filename s)"
| "sanitize_filename_value _ = Inl AttributeError"

text \<open>
  \<^verbatim>\<open>
  def create_article_folder(self, article, base_directory="knowledge_base"):
      article_id = article['id']
      article_title = self.sanitize_filename(article.get('title', f'article_{article_id}'))
      folder_name = f"{article_id}_{article_title}"
      folder_path = os.path.join(base_directory, folder_name)
      os.makedirs(folder_path, exist_ok=True)
      os.makedirs(os.path.join(folder_path, 'attachments'), exist_ok=True)
      return folder_path
  \<close>
\<close>

definition article_folder_name :: "world \<Rightarrow> pyval \<Rightarrow> pystr \<Rightarrow> pystr" where
  "article_folder_name w article_id article_title =
     py_str (repr w) article_id @ ustr ''_'' @ article_title"

definition create_article_folder :: "world \<Rightarrow> pydict \<Rightarrow> pystr \<Rightarrow> (pystr, 'z) io" where
  "create_article_folder w article base_directory =
     bind (lift (dict_index article (ustr ''id''))) (\<lambda>article_id.
     bind (lift (sanitize_filename_value
                   (dict_get article (ustr ''title'')
                      (PStr (ustr ''article_'' @ py_str (repr w) article_id))))) (\<lambda>article_title.
       let folder_name = article_folder_name w article_id article_title;
           folder_path = path_join base_directory folder_name
       in bind (makedirs w folder_path) (\<lambda>_.
          bind (makedirs w (path_join folder_path (ustr ''attachments''))) (\<lambda>_.
          return folder_path))))"

text \<open>
  The files of one article: \<^verbatim>\<open>os.path.join(folder_path, f"{article_id}_article.pdf")\<close>
  and the like.
\<close>

definition article_file :: "world \<Rightarrow> pystr \<Rightarrow> pyval \<Rightarrow> string \<Rightarrow> pystr" where
  "article_file w folder_path article_id suffix =
     path_join folder_path (py_str (repr w) article_id @ ustr suffix)"

text \<open>
  \<^verbatim>\<open>
  def download_article_content(self, article, folder_path, save_pdf=True, save_html=True,
                               save_text=True):
      try:
          article_id = article['id']
          detailed_article = self.get_article_details(article_id)
          if not detailed_article:
              return False, None
          html_content = detailed_article.get('description', '')
          formats_saved = []
          if save_pdf and html_content:
              pdf_file = os.path.join(folder_path, f"{article_id}_article.pdf")
              if self.create_pdf_document(detailed_article, html_content, pdf_file):
                  formats_saved.append("PDF")
          if save_html and html_content:
              html_file = os.path.join(folder_path, f"{article_id}_article.html")
              with open(html_file, 'w', encoding='utf-8') as f:
                  f.write(self.create_html_document(detailed_article, html_content))
              formats_saved.append("HTML")
          if save_text:
              text_content = self.html_to_text(html_content)
              text_file = os.path.join(folder_path, f"{article_id}_article.txt")
              with open(text_file, 'w', encoding='utf-8') as f:
                  f.write(text_content)
              formats_saved.append("TEXT")
          metadata_file = os.path.join(folder_path, f"{article_id}_metadata.json")
          with open(metadata_file, 'w', encoding='utf-8') as f:
              json.dump(self.extract_article_metadata(detailed_article), f, ...)
          formats_saved.append("JSON")
          return True, detailed_article
      except Exception as e:
          return False, None
  \<close>
  \<^verbatim>\<open>formats_saved\<close> is only logged and is left out. The four steps that write are
  named; in each the file is opened before the value written to it is computed, where
  the source does so.
\<close>

definition save_pdf_step :: "world \<Rightarrow> pystr \<Rightarrow> pyval \<Rightarrow> pyval \<Rightarrow> pyval \<Rightarrow> bool \<Rightarrow> (unit, 'z) io" where
  "save_pdf_step w folder_path article_id detailed_article html_content save_pdf =
     (if save_pdf \<and> truthy html_content
      then bind (create_pdf_document w detailed_article html_content
                   (article_file w folder_path article_id ''_article.pdf'')) (\<lambda>saved. return ())
      else return ())"

definition save_html_step :: "world \<Rightarrow> pystr \<Rightarrow> pyval \<Rightarrow> pyval \<Rightarrow> pyval \<Rightarrow> bool \<Rightarrow> (unit, 'z) io" where
  "save_html_step w folder_path article_id detailed_article html_content save_html =
     (if save_html \<and> truthy html_content
      then let html_file = article_file w folder_path article_id ''_article.html''
           in bind (open_w w html_file) (\<lambda>_.
              bind (at_tick (\<lambda>t. create_html_document w t detailed_article html_content False)) (\<lambda>doc.
              file_write w html_file (html_doc_strings w doc) (Html doc)))
      else return ())"

definition save_text_step :: "world \<Rightarrow> pystr \<Rightarrow> pyval \<Rightarrow> pyval \<Rightarrow> bool \<Rightarrow> (unit, 'z) io" where
  "save_text_step w folder_path article_id html_content save_text =
     (if save_text
      then bind (lift (html_to_text w html_content)) (\<lambda>text_content.
           let text_file = article_file w folder_path article_id ''_article.txt''
           in bind (open_w w text_file) (\<lambda>_.
              file_write w text_file [text_content] (Text text_content)))
      else return ())"

definition save_metadata_step :: "world \<Rightarrow> pystr \<Rightarrow> pyval \<Rightarrow> pyval \<Rightarrow> (unit, 'z) io" where
  "save_metadata_step w folder_path article_id detailed_article =
     (let metadata_file = article_file w folder_path article_id ''_metadata.json''
      in bind (open_w w metadata_file) (\<lambda>_.
         bind (at_tick (\<lambda>t. extract_article_metadata w t detailed_article)) (\<lambda>metadata.
         json_dump w metadata_file metadata)))"

definition download_article_content ::
  "world \<Rightarrow> pydict \<Rightarrow> pystr \<Rightarrow> bool \<Rightarrow> bool \<Rightarrow> bool \<Rightarrow> (bool \<times> pyval, 'z) io" where
  "download_article_content w article folder_path save_pdf save_html save_text =
     try_except
       (bind (lift (dict_index article (ustr ''id''))) (\<lambda>article_id.
        bind (get_article_details w article_id) (\<lambda>detailed_article.
          if \<not> truthy detailed_article then return (False, PNone)
          else
            bind (lift (py_get detailed_article (ustr ''description'') (PStr []))) (\<lambda>html_content.
            bind (save_pdf_step w folder_path article_id detailed_article html_content save_pdf) (\<lambda>_.
            bind (save_html_step w folder_path article_id detailed_article html_content save_html) (\<lambda>_.
            bind (save_text_step w folder_path article_id html_content save_text) (\<lambda>_.
            bind (save_metadata_step w folder_path article_id detailed_article) (\<lambda>_.
            return (True, detailed_article)))))))))
       (\<lambda>e. return (False, PNone))"

section \<open>Bulk download\<close>

text \<open>
  \<^verbatim>\<open>
  def download_articles_and_attachments(self, articles, base_download_dir="knowledge_base",
                                        download_attachments=True, save_pdf=True,
                                        save_html=True, save_text=True):
      total_articles = len(articles)
      successful_articles = 0
      total_attachments = 0
      successful_attachments = 0
      for index, article in enumerate(articles, 1):
          article_id = article['id']
          article_title = article.get('title', f'article_{article_id}')
          try:
              folder_path = self.create_article_folder(article, base_download_dir)
              ok, detailed_article = self.download_article_content(
                  article, folder_path, save_pdf=save_pdf, save_html=save_html, save_text=save_text)
              if ok:
                  successful_articles += 1
              else:
                  continue
              if download_attachments and detailed_article:
                  attachments = detailed_article.get('attachments', [])
                  if attachments:
                      attachment_success_count = 0
                      for att in attachments:
                          att_id = att.get('id')
                          att_name = self.sanitize_filename(att.get('name', 'unknown'))
                          filename = f"{att_id}_{att_name}"
                          download_path = os.path.join(folder_path, 'attachments', filename)
                          total_attachments += 1
                          if self.download_attachment(att, download_path):
                              successful_attachments += 1
                              attachment_success_count += 1
                  article['has_attachments'] = len(attachments) > 0
                  article['attachment_count'] = len(attachments)
                  article['attachments_downloaded'] = attachment_success_count if attachments else 0
                  article['local_folder'] = folder_path
          except Exception as e:
              continue
      return {
          'total_articles': total_articles,
          'successful_articles': successful_articles,
          'total_attachments': total_attachments,
          'successful_attachments': successful_attachments,
          'download_directory': base_download_dir
      }
  \<close>
  The counters are local variables: an exception does not undo what was added to them,
  so they are passed along beside the state, also where an exception is raised.
\<close>

record counters =
  successful_articles :: int
  total_attachments :: int
  successful_attachments :: int

text \<open>
  The loop over the attachments of one article. Its result is
  \<^verbatim>\<open>attachment_success_count\<close>, or the exception that ended it.
\<close>

fun attachments_loop ::
  "world \<Rightarrow> pystr \<Rightarrow> pyval list \<Rightarrow> counters \<Rightarrow> int \<Rightarrow> state \<Rightarrow> (exn + int) \<times> counters \<times> state"
where
  "attachments_loop w folder_path [] c attachment_success_count s =
     (Inr attachment_success_count, c, s)"
| "attachments_loop w folder_path (att # atts) c attachment_success_count s =
     (case py_get att (ustr ''id'') PNone of
        Inl e \<Rightarrow> (Inl e, c, s)
      | Inr att_id \<Rightarrow>
          (case and_then (py_get att (ustr ''name'') (PStr (ustr ''unknown'')))
                  sanitize_filename_value of
             Inl e \<Rightarrow> (Inl e, c, s)
           | Inr att_name \<Rightarrow>
               let filename = py_str (repr w) att_id @ ustr ''_'' @ att_name;
                   download_path =
                     path_join (path_join folder_path (ustr ''attachments'')) filename;
                   c1 = c\<lparr>total_attachments := total_attachments c + 1\<rparr>
               in (case download_attachment w att download_path s of
                     (Inl e, s') \<Rightarrow> (Inl e, c1, s')
                   | (Inr ok, s') \<Rightarrow>
                       if ok
                       then attachments_loop w folder_path atts
                              (c1\<lparr>successful_attachments := successful_attachments c1 + 1\<rparr>)
                              (attachment_success_count + 1) s'
                       else attachments_loop w folder_path atts c1 attachment_success_count s')))"

text \<open>The four fields the loop writes into the article stub.\<close>

definition annotate :: "pydict \<Rightarrow> int \<Rightarrow> int \<Rightarrow> pystr \<Rightarrow> pydict" where
  "annotate article n attachments_downloaded folder_path =
     dict_set
       (dict_set
         (dict_set
           (dict_set article (ustr ''has_attachments'') (PBool (n > 0)))
           (ustr ''attachment_count'') (PInt n))
         (ustr ''attachments_downloaded'') (PInt attachments_downloaded))
       (ustr ''local_folder'') (PStr folder_path)"

text \<open>
  One round of the loop over the articles. The result is the exception that leaves
  the loop, if there is one (only \<^verbatim>\<open>article['id']\<close> stands outside the
  \<^verbatim>\<open>try\<close>), the article with its annotations, the counters and the state. Every
  exception inside the \<^verbatim>\<open>try\<close> ends the round as \<^verbatim>\<open>continue\<close> does.
\<close>

definition process_article ::
  "world \<Rightarrow> pystr \<Rightarrow> bool \<Rightarrow> bool \<Rightarrow> bool \<Rightarrow> bool \<Rightarrow> pydict \<Rightarrow> counters \<Rightarrow> state
     \<Rightarrow> exn option \<times> pydict \<times> counters \<times> state"
where
  "process_article w base_download_dir download_attachments save_pdf save_html save_text article c s =
     (case dict_index article (ustr ''id'') of
        Inl e \<Rightarrow> (Some e, article, c, s)
      | Inr article_id \<Rightarrow>
          (case create_article_folder w article base_download_dir s of
             (Inl e, s1) \<Rightarrow> (None, article, c, s1)
           | (Inr folder_path, s1) \<Rightarrow>
               (case download_article_content w article folder_path save_pdf save_html save_text s1 of
                  (Inl e, s2) \<Rightarrow> (None, article, c, s2)
                | (Inr (ok, detailed_article), s2) \<Rightarrow>
                    if \<not> ok then (None, article, c, s2)
                    else
                      let c1 = c\<lparr>successful_articles := successful_articles c + 1\<rparr> in
                      if download_attachments \<and> truthy detailed_article then
                        (case py_get detailed_article (ustr ''attachments'') (PList []) of
                           Inl e \<Rightarrow> (None, article, c1, s2)
                         | Inr attachments \<Rightarrow>
                             (case (if truthy attachments
                                    then (case py_iter attachments of
                                            Inl e \<Rightarrow> (Inl e, c1, s2)
                                          | Inr atts \<Rightarrow> attachments_loop w folder_path atts c1 0 s2)
                                    else (Inr 0, c1, s2)) of
                                (Inl e, c2, s3) \<Rightarrow> (None, article, c2, s3)
                              | (Inr attachment_success_count, c2, s3) \<Rightarrow>
                                  (case py_len attachments of
                                     Inl e \<Rightarrow> (None, article, c2, s3)
                                   | Inr n \<Rightarrow>
                                       (None,
                                        annotate article n attachment_success_count folder_path,
                                        c2, s3))))
                      else (None, article, c1, s2))))"

fun articles_loop ::
  "world \<Rightarrow> pystr \<Rightarrow> bool \<Rightarrow> bool \<Rightarrow> bool \<Rightarrow> bool \<Rightarrow> pydict list \<Rightarrow> counters \<Rightarrow> state
     \<Rightarrow> exn option \<times> pydict list \<times> counters \<times> state"
where
  "articles_loop w base da sp sh st [] c s = (None, [], c, s)"
| "articles_loop w base da sp sh st (article # rest) c s =
     (case process_article w base da sp sh st article c s of
        (Some e, article', c', s') \<Rightarrow> (Some e, article' # rest, c', s')
      | (None, article', c', s') \<Rightarrow>
          (case articles_loop w base da sp sh st rest c' s' of
             (r, rest', c'', s'') \<Rightarrow> (r, article' # rest', c'', s'')))"

text \<open>
  The result is the summary the function returns (or the exception that leaves it),
  the list of articles as the loop has annotated it, and the state.
\<close>

definition download_articles_and_attachments ::
  "world \<Rightarrow> pydict list \<Rightarrow> pystr \<Rightarrow> bool \<Rightarrow> bool \<Rightarrow> bool \<Rightarrow> bool \<Rightarrow> state
     \<Rightarrow> (exn + pydict) \<times> pydict list \<times> state"
where
  "download_articles_and_attachments w articles base_download_dir download_attachments
       save_pdf save_html save_text s =
     (let total_articles = int (length articles) in
      case articles_loop w base_download_dir download_attachments save_pdf save_html save_text
             articles
             \<lparr>successful_articles = 0, total_attachments = 0, successful_attachments = 0\<rparr> s of
        (Some e, articles', c, s') \<Rightarrow> (Inl e, articles', s')
      | (None, articles', c, s') \<Rightarrow>
          (Inr [(ustr ''total_articles'', PInt total_articles),
                (ustr ''successful_articles'', PInt (successful_articles c)),
                (ustr ''total_attachments'', PInt (total_attachments c)),
                (ustr ''successful_attachments'', PInt (successful_attachments c)),
                (ustr ''download_directory'', PStr base_download_dir)],
           articles', s'))"

section \<open>Auxiliary notions\<close>

text \<open>
  The attachment counters of \<open>c'\<close> have grown from those of \<open>c\<close>, the successful
  ones by no more than the total.
\<close>

definition counters_grow :: "counters \<Rightarrow> counters \<Rightarrow> bool" where
  "counters_grow c c' \<longleftrightarrow>
     successful_attachments c \<le> successful_attachments c'
     \<and> successful_attachments c' - successful_attachments c
         \<le> total_attachments c' - total_attachments c"



section \<open>Concrete worlds and inputs\<close>

text \<open>The state before the program runs: nothing requested, nothing written.\<close>

definition state0 :: state where
  "state0 = \<lparr>tick = 0, requests = [], dirs = [], files = Map.empty\<rparr>"

text \<open>
  A world in which every HTTP request is answered with status 500, every download
  fails to connect, the file system accepts every operation and WeasyPrint is not
  installed.
\<close>

definition failing_world :: world where
  "failing_world =
     \<lparr>domain = ustr ''avh'',
      http_get = (\<lambda>t req. Inr \<lparr>status_code = 500, json = PNone\<rparr>),
      fetch = (\<lambda>t u. ConnectionFailed),
      os_refuses = (\<lambda>t p. False),
      weasyprint_available = False,
      weasyprint_fails = (\<lambda>t. True),
      strftime = (\<lambda>t f. []),
      isoformat = (\<lambda>t. []),
      repr = (\<lambda>v. []),
      urljoin = (\<lambda>a b. a @ b),
      charref_sub = (\<lambda>s. s)\<rparr>"

text \<open>
  A server with 102 articles in folder 7: page 1 holds 100 stubs, page 2 holds two, and
  every other request is answered with status 500.
\<close>

definition stub :: "int \<Rightarrow> pyval" where
  "stub i = PDict [(ustr ''id'', PInt i), (ustr ''title'', PStr (ustr ''T''))]"

definition two_pages :: "pyval list list" where
  "two_pages = [replicate 100 (stub 1), [stub 2, stub 3]]"

definition paged_world :: world where
  "paged_world = failing_world
     \<lparr>http_get := (\<lambda>t req.
        case map_of (params req) (ustr ''page'') of
          Some (PInt p) \<Rightarrow>
            if p = 1 then Inr \<lparr>status_code = 200, json = PDict [(ustr ''articles'', PList (two_pages ! 0))]\<rparr>
            else if p = 2 then Inr \<lparr>status_code = 200, json = PDict [(ustr ''articles'', PList (two_pages ! 1))]\<rparr>
            else Inr \<lparr>status_code = 500, json = PNone\<rparr>
        | _ \<Rightarrow> Inr \<lparr>status_code = 500, json = PNone\<rparr>)\<rparr>"

text \<open>The markup of two paragraphs.\<close>

definition two_paragraphs :: pystr where
  "two_paragraphs = ustr ''<p>A</p><p>B</p>''"

text \<open>An article detail whose status is neither 1 nor 2.\<close>

definition unknown_status_article :: pyval where
  "unknown_status_article =
     PDict [(ustr ''id'', PInt 7), (ustr ''title'', PStr (ustr ''T'')), (ustr ''status'', PInt 3)]"


text \<open>
  The end-to-end scenario: two article stubs \<open>A\<close> (id 1) and \<open>B\<close> (id 2). The server
  answers the detail request for article 1 with status 200 and a detail that has a body
  and one attachment, and every other request with status 404; the attachment
  downloads completely; the file system accepts every operation.
\<close>

definition detail_A :: pyval where
  "detail_A = PDict
     [(ustr ''id'', PInt 1), (ustr ''title'', PStr (ustr ''A'')), (ustr ''status'', PInt 1),
      (ustr ''description'', PStr two_paragraphs),
      (ustr ''attachments'',
         PList [PDict [(ustr ''id'', PInt 10), (ustr ''name'', PStr (ustr ''f.txt'')),
                       (ustr ''attachment_url'', PStr (ustr ''http://files/f.txt''))]])]"

definition stub_A :: pydict where
  "stub_A = [(ustr ''id'', PInt 1), (ustr ''title'', PStr (ustr ''A''))]"

definition stub_B :: pydict where
  "stub_B = [(ustr ''id'', PInt 2), (ustr ''title'', PStr (ustr ''B''))]"

definition scenario_world :: world where
  "scenario_world = failing_world
     \<lparr>http_get := (\<lambda>t req.
        if url req = ustr ''https://avh.freshservice.com/api/v2/solutions/articles/1''
        then Inr \<lparr>status_code = 200, json = PDict [(ustr ''article'', detail_A)]\<rparr>
        else Inr \<lparr>status_code = 404, json = PNone\<rparr>),
      fetch := (\<lambda>t u. Served 200 (ustr ''data'') True)\<rparr>"

text \<open>
  An article whose body is empty: the server answers every request with status 200 and
  the detail of article 3, whose \<open>description\<close> is the empty string.
\<close>

definition detail_E :: pyval where
  "detail_E = PDict
     [(ustr ''id'', PInt 3), (ustr ''title'', PStr (ustr ''E'')), (ustr ''description'', PStr [])]"

definition stub_E :: pydict where
  "stub_E = [(ustr ''id'', PInt 3), (ustr ''title'', PStr (ustr ''E''))]"

definition empty_body_world :: world where
  "empty_body_world = failing_world
     \<lparr>http_get := (\<lambda>t req.
        Inr \<lparr>status_code = 200, json = PDict [(ustr ''article'', detail_E)]\<rparr>)\<rparr>"

text \<open>One record whose id is a lone surrogate, as \<^verbatim>\<open>json.loads('"\ud800"')\<close> gives it.\<close>

definition surrogate_stub :: "pydict list" where
  "surrogate_stub = [[(ustr ''id'', PStr [55296])]]"

chapter \<open>Verification\<close>

section \<open>Properties of the filename sanitizer\<close>

lemma invalid_chars_eq: "invalid_chars = [60, 62, 58, 34, 47, 92, 10, 63, 42]"
  by (simp add: invalid_chars_def ustr_def)

lemma str_replace_char_map:
  "str_replace_char old [n] s = map (\<lambda>c. if c = old then n else c) s"
  by (induction s) (simp_all add: str_replace_char_def)

lemma replace_invalid_map:
  "fold (\<lambda>char fn. str_replace_char char (ustr ''_'') fn) invalid_chars s =
     map (\<lambda>c. if c \<in> set invalid_chars then 95 else c) s"
  by (simp add: invalid_chars_eq ustr_def str_replace_char_map)

lemma sanitize_filename_eq:
  "sanitize_filename x = take 250 (map (\<lambda>c. if c \<in> set invalid_chars then 95 else c) (strip x))"
  by (simp add: sanitize_filename_def replace_invalid_map)

lemma sanitize_no_invalid: "set (sanitize_filename x) \<inter> set invalid_chars = {}"
proof -
  have "c \<notin> set invalid_chars" if "c \<in> set (sanitize_filename x)" for c
  proof -
    from that have "c \<in> set (map (\<lambda>c. if c \<in> set invalid_chars then 95 else c) (strip x))"
      unfolding sanitize_filename_eq by (rule in_set_takeD)
    then show ?thesis by (auto simp: invalid_chars_eq)
  qed
  then show ?thesis by blast
qed

lemma rstrip_Cons:
  "\<not> P a \<Longrightarrow> rev (dropWhile P (rev (a # as))) = a # rev (dropWhile P (rev as))"
  by (simp add: dropWhile_append)

lemma rstrip_self_iff:
  "rev (dropWhile P (rev xs)) = xs \<longleftrightarrow> xs = [] \<or> \<not> P (last xs)"
proof -
  have "rev (dropWhile P (rev xs)) = xs \<longleftrightarrow> dropWhile P (rev xs) = rev xs"
    by (metis rev_rev_ident)
  also have "\<dots> \<longleftrightarrow> rev xs = [] \<or> \<not> P (hd (rev xs))"
    by (rule dropWhile_eq_self_iff)
  finally show ?thesis by (auto simp: hd_rev)
qed

lemma strip_head: "strip s = [] \<or> \<not> isspace (hd (strip s))"
proof (cases "dropWhile isspace s")
  case Nil
  then have "strip s = []" by (simp only: strip_def dropWhile.simps rev.simps)
  then show ?thesis by simp
next
  case (Cons a as)
  then have "\<not> isspace a" by (metis dropWhile_eq_Cons_conv)
  with Cons show ?thesis by (simp add: strip_def rstrip_Cons del: rev.simps)
qed

lemma strip_length_le: "length (strip s) \<le> length s"
proof -
  have "length (strip s) \<le> length (dropWhile isspace s)"
    unfolding strip_def by (metis length_dropWhile_le length_rev)
  also have "\<dots> \<le> length s" by (rule length_dropWhile_le)
  finally show ?thesis .
qed

lemma strip_subset: "set (strip s) \<subseteq> set s"
proof -
  have "set (strip s) \<subseteq> set (dropWhile isspace s)"
    unfolding strip_def by (metis set_dropWhileD set_rev subsetI)
  then show ?thesis by (meson set_dropWhileD subset_iff)
qed

lemma strip_last: "strip s = [] \<or> \<not> isspace (last (strip s))"
proof -
  have "dropWhile isspace (rev (dropWhile isspace s)) = [] \<or>
        \<not> isspace (hd (dropWhile isspace (rev (dropWhile isspace s))))"
    by (metis hd_dropWhile)
  then show ?thesis by (auto simp: strip_def last_rev)
qed

lemma strip_self_iff:
  "s = [] \<or> \<not> isspace (hd s) \<Longrightarrow> strip s = s \<longleftrightarrow> \<not> ends_with_space s"
proof -
  assume "s = [] \<or> \<not> isspace (hd s)"
  then have "dropWhile isspace s = s" by (simp add: dropWhile_eq_self_iff)
  then show ?thesis by (auto simp: strip_def rstrip_self_iff ends_with_space_def)
qed

lemma isspace_underscore: "\<not> isspace 95"
  by (simp add: isspace_def)

lemma sanitize_head: "sanitize_filename x = [] \<or> \<not> isspace (hd (sanitize_filename x))"
proof (cases "strip x")
  case Nil
  then show ?thesis by (simp add: sanitize_filename_eq)
next
  case (Cons a as)
  with strip_head [of x] have "\<not> isspace a" by simp
  with Cons show ?thesis by (simp add: sanitize_filename_eq isspace_underscore)
qed

lemma sanitize_length: "length (sanitize_filename x) \<le> 250"
  by (simp add: sanitize_filename_eq)

lemma sanitize_twice: "sanitize_filename (sanitize_filename x) = strip (sanitize_filename x)"
proof -
  let ?y = "sanitize_filename x"
  have "set (strip ?y) \<inter> set invalid_chars = {}"
    using strip_subset [of ?y] sanitize_no_invalid [of x] by blast
  then have "map (\<lambda>c. if c \<in> set invalid_chars then 95 else c) (strip ?y) = strip ?y"
    by (intro map_idI) auto
  moreover have "length (strip ?y) \<le> 250"
    using strip_length_le [of ?y] sanitize_length [of x] by linarith
  ultimately show ?thesis by (simp add: sanitize_filename_eq [of ?y])
qed

lemma sanitize_short:
  assumes "length (strip x) \<le> 250"
  shows "\<not> ends_with_space (sanitize_filename x)"
proof -
  let ?f = "\<lambda>c. if c \<in> set invalid_chars then 95 else c"
  have eq: "sanitize_filename x = map ?f (strip x)"
    using assms by (simp add: sanitize_filename_eq)
  show ?thesis
  proof (cases "strip x = []")
    case True
    then show ?thesis by (simp add: eq ends_with_space_def)
  next
    case False
    with strip_last [of x] have "\<not> isspace (last (strip x))" by simp
    with False show ?thesis
      by (simp add: eq ends_with_space_def last_map isspace_underscore)
  qed
qed

text \<open>
  Claim C4. For every input string, the name returned by \<open>sanitize_filename\<close> holds none
  of the reserved characters \<open>< > : " / \ newline ? *\<close> and has at most 250 characters.
\<close>

theorem sanitize_filename_safe:
  "set (sanitize_filename x) \<inter> set invalid_chars = {} \<and> length (sanitize_filename x) \<le> 250"
  by (simp add: sanitize_no_invalid sanitize_length)

lemma sanitize_long_name: "sanitize_filename long_name = replicate 249 97 @ [32]"
proof -
  have ns: "\<not> isspace 97" "\<not> isspace 98" by (simp_all add: isspace_def)
  have l: "long_name = 97 # (replicate 248 97 @ [32, 98])"
    by (simp add: long_name_def ustr_def flip: replicate_Suc)
  have "dropWhile isspace long_name = long_name"
    by (simp add: l ns)
  moreover have "rev (dropWhile isspace (rev long_name)) = long_name"
    by (simp add: rstrip_self_iff long_name_def ustr_def ns)
  ultimately have s: "strip long_name = long_name" by (simp add: strip_def)
  have "map (\<lambda>c. if c \<in> set invalid_chars then 95 else c) long_name = long_name"
    by (intro map_idI) (auto simp: long_name_def ustr_def invalid_chars_eq)
  then show ?thesis
    by (simp add: sanitize_filename_eq s) (simp add: long_name_def ustr_def)
qed

text \<open>
  Claim C5 as stated (the sanitizer is idempotent on every input) fails: truncation to
  250 characters runs after the trim, so it can leave a trailing space, which a second
  pass trims. On \<open>long_name\<close> the first pass returns 249 times \<open>a\<close> and a space, the
  second 249 times \<open>a\<close>.
\<close>

theorem sanitize_filename_not_idempotent:
  "sanitize_filename (sanitize_filename long_name) \<noteq> sanitize_filename long_name"
proof -
  have "ends_with_space (sanitize_filename long_name)"
    by (simp add: sanitize_long_name ends_with_space_def isspace_def)
  then have "strip (sanitize_filename long_name) \<noteq> sanitize_filename long_name"
    using strip_self_iff [OF sanitize_head, of long_name] by simp
  then show ?thesis by (simp add: sanitize_twice)
qed

text \<open>
  Claim C5, amended. A second pass equals the first exactly when the first result does
  not end in whitespace; this is so for every input whose trimmed form has at most 250
  characters.
\<close>

theorem sanitize_filename_idempotent_iff:
  "(sanitize_filename (sanitize_filename x) = sanitize_filename x
      \<longleftrightarrow> \<not> ends_with_space (sanitize_filename x))
   \<and> (length (strip x) \<le> 250 \<longrightarrow> sanitize_filename (sanitize_filename x) = sanitize_filename x)"
proof -
  have a: "sanitize_filename (sanitize_filename x) = sanitize_filename x
      \<longleftrightarrow> \<not> ends_with_space (sanitize_filename x)"
    using strip_self_iff [OF sanitize_head, of x] by (simp add: sanitize_twice)
  with sanitize_short [of x] show ?thesis by blast
qed

theorem sanitize_filename_idempotent_witness:
  "sanitize_filename (sanitize_filename (ustr '' a:b '')) = sanitize_filename (ustr '' a:b '')"
proof -
  have "strip (ustr '' a:b '') = ustr ''a:b''"
    by (simp add: strip_def ustr_def isspace_def)
  then have "length (strip (ustr '' a:b '')) \<le> 250" by (simp add: ustr_def)
  with sanitize_filename_idempotent_iff [of "ustr '' a:b ''"] show ?thesis by blast
qed

section \<open>Properties of the API client\<close>

text \<open>
  Claim C1 says that every listing operation returns an empty list (or an absent
  detail) on a 403 response and on every other response that is not a success. For
  \<open>get_categories\<close> and \<open>get_folders\<close> the code has no branch for a status other
  than 200 and 403, and the function returns \<^verbatim>\<open>None\<close>: on a response with status 500
  the result is \<open>PNone\<close>, not \<open>PList []\<close>.
\<close>

theorem get_categories_server_error:
  "fst (get_categories failing_world state0) = Inr PNone
   \<and> fst (get_folders failing_world (PInt 1) state0) = Inr PNone"
  by (simp add: get_categories_def get_folders_def bind_def requests_get_def return_def
      failing_world_def)

text \<open>
  The loop of \<open>get_articles\<close>, started at page \<open>j + 1\<close> of a source that serves the
  pages \<open>pages\<close>, requests the pages that remain and returns what it had with them
  appended.
\<close>

lemma get_articles_loop_pages:
  fixes pages :: "pyval list list"
  assumes served: "\<And>i. i < length pages \<Longrightarrow>
      \<exists>d. http_get w (t0 + i) (articles_request w fid cid (int i + 1))
             = Inr \<lparr>status_code = 200, json = PDict d\<rparr>
          \<and> map_of d (ustr ''articles'') = Some (PList (pages ! i))"
    and full: "\<And>i. Suc i < length pages \<Longrightarrow> length (pages ! i) = 100"
    and short: "length (last pages) < 100"
    and j: "j < length pages"
    and tick: "tick s = t0 + j"
  shows "get_articles_loop w fid cid acc (int j + 1) s =
     Some (Inr (acc @ concat (drop j pages)),
           s\<lparr>tick := t0 + length pages,
             requests := requests s @
               map (\<lambda>i. articles_request w fid cid (int i + 1)) [j..<length pages]\<rparr>)"
  using j tick
proof (induction "length pages - j" arbitrary: j acc s)
  case 0
  then show ?case by simp
next
  case (Suc n)
  let ?req = "\<lambda>i. articles_request w fid cid (int i + 1)"
  from served [OF Suc.prems(1)] obtain d where
    d: "http_get w (t0 + j) (?req j) = Inr \<lparr>status_code = 200, json = PDict d\<rparr>"
      "map_of d (ustr ''articles'') = Some (PList (pages ! j))" by blast
  let ?s' = "s\<lparr>tick := tick s + 1, requests := requests s @ [?req j]\<rparr>"
  have step: "requests_get w (?req j) s = (Inr \<lparr>status_code = 200, json = PDict d\<rparr>, ?s')"
    by (simp add: requests_get_def Suc.prems(2) d(1))
  show ?case
  proof (cases "Suc j < length pages")
    case True
    then have len: "length (pages ! j) = 100" by (rule full)
    have n: "n = length pages - Suc j" using Suc.hyps(2) by simp
    have t': "tick ?s' = t0 + Suc j" using Suc.prems(2) by simp
    have ih: "get_articles_loop w fid cid (acc @ pages ! j) (int (Suc j) + 1) ?s' =
      Some (Inr ((acc @ pages ! j) @ concat (drop (Suc j) pages)),
           ?s'\<lparr>tick := t0 + length pages,
             requests := requests ?s' @ map ?req [Suc j..<length pages]\<rparr>)"
      by (rule Suc.hyps(1) [OF n True t'])
    have dr: "drop j pages = pages ! j # drop (Suc j) pages"
      using Suc.prems(1) by (simp add: Cons_nth_drop_Suc)
    have up: "[j..<length pages] = j # [Suc j..<length pages]"
      using Suc.prems(1) by (simp add: upt_conv_Cons)
    have pg: "int j + 1 + 1 = int (Suc j) + 1" by simp
    have "get_articles_loop w fid cid acc (int j + 1) s =
          get_articles_loop w fid cid (acc @ pages ! j) (int (Suc j) + 1) ?s'"
      apply (subst get_articles_loop.simps)
      apply (simp only: step)
      apply (simp add: d(2) dict_get_def len pg del: of_nat_Suc)
      done
    also note ih
    finally show ?thesis by (simp add: dr up)
  next
    case False
    with Suc.prems(1) have last: "Suc j = length pages" by simp
    then have "pages ! j = last pages"
      by (metis Suc.prems(1) diff_Suc_1 last_conv_nth list.size(3) not_less_zero)
    with short have len: "length (pages ! j) < 100" by simp
    have dr: "drop j pages = [pages ! j]"
      using last Suc.prems(1) by (metis Cons_nth_drop_Suc drop_all le_refl)
    have up: "[j..<length pages] = [j]"
      using last by (metis upt_rec lessI upt_eq_Nil_conv le_refl)
    show ?thesis
      apply (subst get_articles_loop.simps)
      apply (simp only: step)
      apply (simp add: d(2) dict_get_def len dr up Suc.prems(2) flip: last)
      done
  qed
qed

text \<open>
  Claim C6. When the source answers the requests for the pages 1 to \<open>k\<close> with status
  200, every page before the last one with 100 articles and page \<open>k\<close> with fewer than
  100, \<open>get_articles\<close> returns (it does not run forever), its result is the
  concatenation of the pages 1 to \<open>k\<close>, and the requests it has issued are the ones
  for the pages 1 to \<open>k\<close>, in this order: there is no request for page \<open>k + 1\<close>.
\<close>

theorem get_articles_short_page:
  fixes pages :: "pyval list list"
  assumes "pages \<noteq> []"
    and "\<forall>i < length pages. \<exists>d.
           http_get w (tick s + i) (articles_request w folder_id category_id (int i + 1))
             = Inr \<lparr>status_code = 200, json = PDict d\<rparr>
           \<and> map_of d (ustr ''articles'') = Some (PList (pages ! i))"
    and "\<forall>i. Suc i < length pages \<longrightarrow> length (pages ! i) = 100"
    and "length (last pages) < 100"
  shows "get_articles w folder_id category_id s =
     Some (Inr (concat pages),
           s\<lparr>tick := tick s + length pages,
             requests := requests s @
               map (\<lambda>i. articles_request w folder_id category_id (int i + 1))
                 [0..<length pages]\<rparr>)"
  using get_articles_loop_pages [of pages w "tick s" folder_id category_id 0 s "[]"] assms
  by (simp add: get_articles_def)

theorem get_articles_short_page_witness:
  "get_articles paged_world (PInt 7) PNone state0 =
     Some (Inr (replicate 100 (stub 1) @ [stub 2, stub 3]),
           state0\<lparr>tick := 2,
             requests := [articles_request paged_world (PInt 7) PNone 1,
                          articles_request paged_world (PInt 7) PNone 2]\<rparr>)"
proof -
  have a: "two_pages \<noteq> []" by (simp add: two_pages_def)
  have b: "\<forall>i < length two_pages. \<exists>d.
           http_get paged_world (tick state0 + i) (articles_request paged_world (PInt 7) PNone (int i + 1))
             = Inr \<lparr>status_code = 200, json = PDict d\<rparr>
           \<and> map_of d (ustr ''articles'') = Some (PList (two_pages ! i))"
  proof (intro allI impI)
    fix i assume "i < length two_pages"
    then have "i = 0 \<or> i = 1" by (auto simp: two_pages_def)
    then show "\<exists>d. http_get paged_world (tick state0 + i)
              (articles_request paged_world (PInt 7) PNone (int i + 1))
             = Inr \<lparr>status_code = 200, json = PDict d\<rparr>
           \<and> map_of d (ustr ''articles'') = Some (PList (two_pages ! i))"
      by (auto simp: paged_world_def articles_request_def ustr_def)
  qed
  have c: "\<forall>i. Suc i < length two_pages \<longrightarrow> length (two_pages ! i) = 100"
    by (simp add: two_pages_def)
  have d: "length (last two_pages) < 100" by (simp add: two_pages_def)
  have e: "[0..<length two_pages] = [0, 1]" by (simp add: two_pages_def upt_rec)
  show ?thesis
    using get_articles_short_page [OF a b c d] by (simp add: e state0_def) (simp add: two_pages_def)
qed

section \<open>Properties of the rich-text converter\<close>

text \<open>
  A pattern whose first item is taken once changes nothing in a text that holds no
  character for this item.
\<close>

lemmas regex_eval = re_sub_def lit_def ustr_def ignorecase_variants_def isspace_def

lemma re_sub_from_no_first:
  "\<forall>c \<in> set s. \<not> atom_matches a c \<Longrightarrow> re_sub_from ((a, One) # r) repl 0 s = s"
  by (induction s) simp_all

lemma re_sub_no_first:
  "\<forall>c \<in> set s. \<not> atom_matches a c \<Longrightarrow> re_sub ((a, One) # r) repl s = s"
  by (simp add: re_sub_def re_sub_from_no_first)

lemma fold_re_sub_no_first:
  "\<forall>(p, repl) \<in> set rs. \<exists>q. p = (a, One) # q \<Longrightarrow> \<forall>c \<in> set s. \<not> atom_matches a c
     \<Longrightarrow> fold (\<lambda>(pattern, replacement) t. re_sub pattern replacement t) rs s = s"
  by (induction rs) (auto simp: re_sub_no_first)

lemma replacements_two_paragraphs:
  "fold (\<lambda>(pattern, replacement) t. re_sub pattern replacement t) replacements two_paragraphs
     = [10, 65, 10, 10, 10, 66, 10, 10]"
proof -
  let ?f = "\<lambda>(pattern, replacement) t. re_sub pattern replacement t"
  have split: "replacements = take 3 replacements @ drop 3 replacements" by simp
  have "fold ?f (take 3 replacements) two_paragraphs = [10, 65, 10, 10, 10, 66, 10, 10]"
    by (simp add: replacements_def two_paragraphs_def regex_eval)
  moreover have "fold ?f (drop 3 replacements) [10, 65, 10, 10, 10, 66, 10, 10]
      = [10, 65, 10, 10, 10, 66, 10, 10]"
    by (rule fold_re_sub_no_first [where a = "Lit 60"])
       (simp_all add: replacements_def lit_def ignorecase_variants_def)
  ultimately show ?thesis by (subst split) (simp only: fold_append comp_apply)
qed

lemma html_to_text_str_two_paragraphs: "html_to_text_str w two_paragraphs = [65, 10, 10, 66]"
proof -
  have a: "re_sub (lit ''<'' @ [(NoneOf [62], Plus)] @ lit ''>'') [] [10, 65, 10, 10, 10, 66, 10, 10]
      = [10, 65, 10, 10, 10, 66, 10, 10]"
    by (simp add: lit_def re_sub_no_first ignorecase_variants_def)
  have b: "unescape w [10, 65, 10, 10, 10, 66, 10, 10] = [10, 65, 10, 10, 10, 66, 10, 10]"
    by (simp add: unescape_def)
  have c: "re_sub [(Lit 10, One), (Space, Star), (Lit 10, One)] [10, 10]
      [10, 65, 10, 10, 10, 66, 10, 10] = [10, 65, 10, 10, 66, 10, 10]"
    by (simp add: regex_eval)
  have d: "re_sub [(OneOf [32, 9], Plus)] [32] [10, 65, 10, 10, 66, 10, 10]
      = [10, 65, 10, 10, 66, 10, 10]"
    by (simp add: regex_eval)
  have e: "strip [10, 65, 10, 10, 66, 10, 10] = [65, 10, 10, 66]"
    by (simp add: strip_def isspace_def)
  show ?thesis
    by (simp only: html_to_text_str_def Let_def replacements_two_paragraphs a b c d e)
qed

lemma html_to_text_two_paragraphs_value:
  "html_to_text w (PStr two_paragraphs) = Inr [65, 10, 10, 66]"
proof -
  have "two_paragraphs \<noteq> []" by (simp add: two_paragraphs_def ustr_def)
  then show ?thesis by (simp add: html_to_text_def html_to_text_str_two_paragraphs)
qed

text \<open>
  Claim C8. \<open>html_to_text\<close> applied to \<^verbatim>\<open><p>A</p><p>B</p>\<close> returns the text
  \<open>A\<close>, two newlines, \<open>B\<close>: the two blocks with exactly one blank line between them.
  The result holds no angle bracket (code points 60 and 62) and no ampersand (38), so
  no tag and no character reference is left. This does not depend on how the library
  decodes character references.
\<close>

theorem html_to_text_two_paragraphs:
  "\<exists>t. html_to_text w (PStr two_paragraphs) = Inr t
      \<and> t = ustr ''A'' @ [10, 10] @ ustr ''B''
      \<and> 60 \<notin> set t \<and> 62 \<notin> set t \<and> 38 \<notin> set t"
  by (simp add: html_to_text_two_paragraphs_value ustr_def)

section \<open>Properties of the status label\<close>

text \<open>
  The document shell maps a status that can be hashed as the claim says: 1 to
  \<open>Published\<close>, 2 to \<open>Draft\<close> and every other value, \<^verbatim>\<open>None\<close> among them, to
  \<open>Unknown\<close>. (\<^verbatim>\<open>True\<close> equals 1 in Python. A status that is a list or a dictionary
  cannot be hashed, and the lookup raises \<^verbatim>\<open>TypeError\<close>.)
\<close>

lemma status_label_shell:
  "hashable v \<Longrightarrow> int_dict_get status_map v (ustr ''Unknown'') =
     Inr (if py_eq_int v 1 then ustr ''Published''
          else if py_eq_int v 2 then ustr ''Draft'' else ustr ''Unknown'')"
  by (simp add: int_dict_get_def status_map_def)

text \<open>
  Claim C2 says that the status label is \<open>Published\<close> for 1, \<open>Draft\<close> for 2 and
  \<open>Unknown\<close> for every other value, in the document shell and in the metadata record.
  The metadata record does not use the map of the document shell: it tests
  \<^verbatim>\<open>article.get("status") == 1\<close> and labels everything else \<open>Draft\<close>. For an
  article detail with status 3 the metadata record says \<open>Draft\<close>, while the document
  shell of the same article says \<open>Unknown\<close>.
\<close>

theorem metadata_status_not_unknown:
  "(\<exists>m. extract_article_metadata w t unknown_status_article = Inr m
        \<and> map_of m (ustr ''status'') = Some (PStr (ustr ''Draft'')))
   \<and> (\<exists>d. create_html_document w t unknown_status_article content False = Inr d
        \<and> doc_status d = ustr ''Unknown'')"
  by (simp add: extract_article_metadata_def create_html_document_def unknown_status_article_def
      and_then_def dict_get_def int_dict_get_def status_map_def ustr_def)

section \<open>Properties of the CSV export\<close>

lemma fold_union_keys:
  "fold (\<lambda>article fieldnames. fieldnames \<union> set (map fst article)) articles S
     = S \<union> (\<Union>a \<in> set articles. fst ` set a)"
  by (induction articles arbitrary: S) auto


lemma csv_fieldnames_eq:
  "csv_fieldnames articles = sorted_list_of_set (\<Union>a \<in> set articles. fst ` set a)"
  unfolding csv_fieldnames_def fold_union_keys by simp










text \<open>
  Without the hypothesis on the strings the export can fail: for a record whose id is a
  lone surrogate the writer raises \<^verbatim>\<open>UnicodeEncodeError\<close> at the first data row and
  leaves a file with the header row only.
\<close>

lemma export_to_csv_surrogate:
  "fst (export_to_csv failing_world surrogate_stub (Some (ustr ''s.csv'')) state0) = Inl UnicodeEncodeError
   \<and> files (snd (export_to_csv failing_world surrogate_stub (Some (ustr ''s.csv'')) state0)) (ustr ''s.csv'')
       = Some (Csv \<lparr>header = [ustr ''id''], rows = []\<rparr>)"
proof -
  have "csv_fieldnames surrogate_stub = [ustr ''id'']"
    by (simp add: csv_fieldnames_eq surrogate_stub_def)
  then show ?thesis
    by (simp add: export_to_csv_def Let_def bind_def open_w_def file_write_def return_def
        csv_filename_def path_error_def encodable_def dict_to_list_def dict_get_def cell_text_def
        surrogate_stub_def failing_world_def state0_def ustr_def)
qed

section \<open>Properties of the bulk download\<close>

subsection \<open>The counters\<close>

lemma counters_grow_refl: "counters_grow c c"
  by (simp add: counters_grow_def)

lemma counters_grow_trans: "counters_grow c c' \<Longrightarrow> counters_grow c' c'' \<Longrightarrow> counters_grow c c''"
  by (auto simp: counters_grow_def)

lemma attachments_loop_counters:
  "attachments_loop w folder_path atts c k s = (r, c', s')
     \<Longrightarrow> successful_articles c' = successful_articles c \<and> counters_grow c c'"
proof (induction atts arbitrary: c k s)
  case Nil
  then show ?case by (simp add: counters_grow_def)
next
  case (Cons att atts)
  show ?case
    using Cons.prems
    apply (simp add: Let_def split: sum.splits prod.splits if_splits)
      apply (auto simp: counters_grow_def dest!: Cons.IH)
    done
qed

lemma process_article_counters:
  assumes "process_article w base da sp sh st article c s = (r, article', c', s')"
  shows "successful_articles c \<le> successful_articles c'
     \<and> successful_articles c' \<le> successful_articles c + 1
     \<and> counters_grow c c'"
  using assms
  apply (simp add: process_article_def Let_def split: sum.splits prod.splits if_splits)
  apply (auto simp: counters_grow_def dest!: attachments_loop_counters)
  done

lemma process_article_returns:
  assumes "map_of article (ustr ''id'') \<noteq> None"
    and "process_article w base da sp sh st article c s = (r, article', c', s')"
  shows "r = None"
  using assms
  by (auto simp: process_article_def dict_index_def Let_def split: sum.splits prod.splits if_splits option.splits)

lemma articles_loop_counters:
  assumes "\<forall>a \<in> set articles. map_of a (ustr ''id'') \<noteq> None"
    and "articles_loop w base da sp sh st articles c s = (r, articles', c', s')"
  shows "r = None
     \<and> successful_articles c \<le> successful_articles c'
     \<and> successful_articles c' \<le> successful_articles c + int (length articles)
     \<and> counters_grow c c'"
  using assms
proof (induction articles arbitrary: c s r articles' c' s')
  case Nil
  then show ?case by (simp add: counters_grow_def)
next
  case (Cons a articles)
  obtain r1 a1 c1 s1 where p: "process_article w base da sp sh st a c s = (r1, a1, c1, s1)"
    by (metis prod_cases4)
  have "map_of a (ustr ''id'') \<noteq> None" using Cons.prems(1) by simp
  then have r1: "r1 = None" using p by (rule process_article_returns)
  obtain r2 as2 c2 s2 where l: "articles_loop w base da sp sh st articles c1 s1 = (r2, as2, c2, s2)"
    by (metis prod_cases4)
  from Cons.prems(2) p r1 l have e: "r = r2" "c' = c2" by simp_all
  from Cons.IH [OF _ l] Cons.prems(1) have ih: "r2 = None"
    "successful_articles c1 \<le> successful_articles c2"
    "successful_articles c2 \<le> successful_articles c1 + int (length articles)"
    "counters_grow c1 c2" by simp_all
  from process_article_counters [OF p] ih e show ?case
    by (auto intro: counters_grow_trans)
qed

text \<open>
  Claim C10. For every list of article stubs (dictionaries with an \<open>id\<close>), every world
  and every state, \<open>download_articles_and_attachments\<close> returns a summary (no exception
  leaves the loop), in which \<open>total_articles\<close> is the length of the list,
  \<open>successful_articles\<close> lies between 0 and \<open>total_articles\<close>, and
  \<open>successful_attachments\<close> lies between 0 and \<open>total_attachments\<close>. The world decides
  which fetches, downloads and writes succeed, at every time anew.
\<close>

theorem run_summary_counters:
  assumes "\<forall>a \<in> set articles. map_of a (ustr ''id'') \<noteq> None"
  shows "\<exists>successful total_att successful_att articles' s'.
    download_articles_and_attachments w articles base_download_dir download_attachments
        save_pdf save_html save_text s =
      (Inr [(ustr ''total_articles'', PInt (int (length articles))),
            (ustr ''successful_articles'', PInt successful),
            (ustr ''total_attachments'', PInt total_att),
            (ustr ''successful_attachments'', PInt successful_att),
            (ustr ''download_directory'', PStr base_download_dir)],
       articles', s')
    \<and> 0 \<le> successful \<and> successful \<le> int (length articles)
    \<and> 0 \<le> successful_att \<and> successful_att \<le> total_att"
proof -
  let ?c0 = "\<lparr>successful_articles = 0, total_attachments = 0, successful_attachments = 0\<rparr>"
  obtain r articles' c s' where
    l: "articles_loop w base_download_dir download_attachments save_pdf save_html save_text
          articles ?c0 s = (r, articles', c, s')"
    by (metis prod_cases4)
  from articles_loop_counters [OF assms l] have "r = None"
    "0 \<le> successful_articles c" "successful_articles c \<le> int (length articles)"
    "0 \<le> successful_attachments c" "successful_attachments c \<le> total_attachments c"
    by (simp_all add: counters_grow_def)
  with l show ?thesis
    by (simp add: download_articles_and_attachments_def)
qed


theorem run_summary_counters_witness:
  "\<exists>successful total_att successful_att articles' s'.
    download_articles_and_attachments scenario_world [stub_A, stub_B] (ustr ''kb'')
        True True True True state0 =
      (Inr [(ustr ''total_articles'', PInt 2),
            (ustr ''successful_articles'', PInt successful),
            (ustr ''total_attachments'', PInt total_att),
            (ustr ''successful_attachments'', PInt successful_att),
            (ustr ''download_directory'', PStr (ustr ''kb''))],
       articles', s')
    \<and> 0 \<le> successful \<and> successful \<le> 2
    \<and> 0 \<le> successful_att \<and> successful_att \<le> total_att"
proof -
  have "\<forall>a \<in> set [stub_A, stub_B]. map_of a (ustr ''id'') \<noteq> None"
    by (simp add: stub_A_def stub_B_def)
  from run_summary_counters [OF this, of scenario_world "ustr ''kb''" True True True True state0]
  show ?thesis by simp
qed

subsection \<open>An article whose detail is absent\<close>

lemmas io_simps = bind_def return_def raise_def lift_def try_except_def try_except_request_def
  requests_get_def requests_get_stream_def makedirs_def open_w_def file_write_def json_dump_def
  at_tick_def

lemmas path_simps = path_error_def encodable_def path_join_def startswith_def

lemma scenario_oracles [simp]:
  "domain scenario_world = ustr ''avh''"
  "os_refuses scenario_world t p = False"
  "weasyprint_available scenario_world = False"
  "fetch scenario_world t u = Served 200 (ustr ''data'') True"
  "repr scenario_world = (\<lambda>v. [])"
  "urljoin scenario_world = (\<lambda>a b. a @ b)"
  "strftime scenario_world t f = []"
  "isoformat scenario_world t = []"
  "http_get scenario_world t req =
     (if url req = ustr ''https://avh.freshservice.com/api/v2/solutions/articles/1''
      then Inr \<lparr>status_code = 200, json = PDict [(ustr ''article'', detail_A)]\<rparr>
      else Inr \<lparr>status_code = 404, json = PNone\<rparr>)"
  by (simp_all add: scenario_world_def failing_world_def)

lemma folder_A:
  "create_article_folder scenario_world stub_A (ustr ''kb'') s =
     (Inr (ustr ''kb/1_A''),
      s\<lparr>tick := Suc (Suc (tick s)),
        dirs := List.insert (ustr ''kb/1_A/attachments'') (List.insert (ustr ''kb/1_A'') (dirs s))\<rparr>)"
  by (simp add: create_article_folder_def io_simps stub_A_def dict_index_def dict_get_def
      sanitize_filename_def invalid_chars_def str_replace_char_def strip_def isspace_def
      article_folder_name_def str_of_int_def path_simps ustr_def Let_def)

lemma details_A:
  "get_article_details scenario_world (PInt 1) s =
     (Inr detail_A, s\<lparr>tick := tick s + 1,
        requests := requests s @ [\<lparr>url = ustr ''https://avh.freshservice.com/api/v2/solutions/articles/1'', params = []\<rparr>]\<rparr>)"
  by (simp add: get_article_details_def io_simps base_url_def str_of_int_def dict_get_def ustr_def)

lemma text_A: "html_to_text w (PStr [60, 112, 62, 65, 60, 47, 112, 62, 60, 112, 62, 66, 60, 47, 112, 62]) = Inr [65, 10, 10, 66]"
  using html_to_text_two_paragraphs_value [of w] by (simp add: two_paragraphs_def ustr_def)

lemma content_A:
  "\<exists>s'. download_article_content scenario_world stub_A (ustr ''kb/1_A'') True True True s
          = (Inr (True, detail_A), s')
        \<and> dirs s' = dirs s"
  by (simp add: download_article_content_def details_A stub_A_def dict_index_def io_simps
      detail_A_def dict_get_def ustr_def two_paragraphs_def
      save_pdf_step_def save_html_step_def save_text_step_def save_metadata_step_def
      create_pdf_document_def article_file_def path_simps html_doc_strings_def Let_def
      str_of_int_def text_A
      create_html_document_def extract_article_metadata_def and_then_def
      int_dict_get_def status_map_def html_escape_str_def str_replace_char_def)

lemma create_article_folder_dirs:
  assumes "create_article_folder w article base s = (Inr folder_path, s1)"
  shows "files s1 = files s
     \<and> dirs s1 = List.insert (path_join folder_path (ustr ''attachments''))
                    (List.insert folder_path (dirs s))"
  using assms
  by (auto simp: create_article_folder_def io_simps Let_def
      split: sum.splits if_splits option.splits)

lemma get_article_details_frame:
  assumes "get_article_details w article_id s = (r, s')"
  shows "files s' = files s \<and> dirs s' = dirs s"
  using assms
  by (auto simp: get_article_details_def io_simps split: sum.splits if_splits)

lemma download_article_content_absent:
  assumes "map_of article (ustr ''id'') = Some article_id"
    and "get_article_details w article_id s = (Inr detailed_article, s')"
    and "\<not> truthy detailed_article"
  shows "download_article_content w article folder_path save_pdf save_html save_text s
     = (Inr (False, PNone), s')"
  using assms
  by (simp add: download_article_content_def dict_index_def bind_def lift_def return_def
      try_except_def)

lemma process_article_absent:
  assumes "map_of article (ustr ''id'') = Some article_id"
    and "create_article_folder w article base_download_dir s = (Inr folder_path, s1)"
    and "get_article_details w article_id s1 = (Inr detailed_article, s2)"
    and "\<not> truthy detailed_article"
  shows "process_article w base_download_dir download_attachments save_pdf save_html save_text
           article c s = (None, article, c, s2)
     \<and> files s2 = files s
     \<and> dirs s2 = List.insert (path_join folder_path (ustr ''attachments''))
                    (List.insert folder_path (dirs s))"
proof -
  have "process_article w base_download_dir download_attachments save_pdf save_html save_text
           article c s = (None, article, c, s2)"
    using assms(1,2) download_article_content_absent [OF assms(1,3,4)]
    by (simp add: process_article_def dict_index_def)
  with create_article_folder_dirs [OF assms(2)] get_article_details_frame [OF assms(3)]
  show ?thesis by simp
qed

lemma folder_B:
  "create_article_folder scenario_world stub_B (ustr ''kb'') s =
     (Inr (ustr ''kb/2_B''),
      s\<lparr>tick := Suc (Suc (tick s)),
        dirs := List.insert (ustr ''kb/2_B/attachments'') (List.insert (ustr ''kb/2_B'') (dirs s))\<rparr>)"
  by (simp add: create_article_folder_def io_simps stub_B_def dict_index_def dict_get_def
      sanitize_filename_def invalid_chars_def str_replace_char_def strip_def isspace_def
      article_folder_name_def str_of_int_def path_simps ustr_def Let_def)

lemma details_B:
  "get_article_details scenario_world (PInt 2) s =
     (Inr PNone, s\<lparr>tick := tick s + 1,
        requests := requests s @ [\<lparr>url = ustr ''https://avh.freshservice.com/api/v2/solutions/articles/2'', params = []\<rparr>]\<rparr>)"
  by (simp add: get_article_details_def io_simps base_url_def str_of_int_def dict_get_def ustr_def)

lemma attachments_A:
  "\<exists>s'. attachments_loop scenario_world (ustr ''kb/1_A'')
          [PDict [(ustr ''id'', PInt 10), (ustr ''name'', PStr (ustr ''f.txt'')),
                  (ustr ''attachment_url'', PStr (ustr ''http://files/f.txt''))]] c 0 s
       = (Inr 1, c\<lparr>total_attachments := total_attachments c + 1,
                     successful_attachments := successful_attachments c + 1\<rparr>, s')
     \<and> dirs s' = List.insert (ustr ''kb/1_A/attachments'') (dirs s)"
  by (simp add: download_attachment_def io_simps dict_get_def and_then_def
      sanitize_filename_def invalid_chars_def str_replace_char_def strip_def isspace_def
      str_of_int_def path_simps dirname_def ustr_def Let_def)

lemma process_A:
  "\<exists>article' s'. process_article scenario_world (ustr ''kb'') True True True True stub_A c s
       = (None, article',
          c\<lparr>successful_articles := successful_articles c + 1,
            total_attachments := total_attachments c + 1,
            successful_attachments := successful_attachments c + 1\<rparr>, s')
     \<and> dirs s' = List.insert (ustr ''kb/1_A/attachments'') (List.insert (ustr ''kb/1_A'') (dirs s))"
proof -
  let ?s1 = "s\<lparr>tick := Suc (Suc (tick s)),
        dirs := List.insert (ustr ''kb/1_A/attachments'') (List.insert (ustr ''kb/1_A'') (dirs s))\<rparr>"
  let ?c1 = "c\<lparr>successful_articles := successful_articles c + 1\<rparr>"
  from content_A [of ?s1] obtain s2 where
    s2: "download_article_content scenario_world stub_A (ustr ''kb/1_A'') True True True ?s1
          = (Inr (True, detail_A), s2)" "dirs s2 = dirs ?s1" by blast
  from attachments_A [of ?c1 s2] obtain s3 where
    s3: "attachments_loop scenario_world (ustr ''kb/1_A'')
          [PDict [(ustr ''id'', PInt 10), (ustr ''name'', PStr (ustr ''f.txt'')),
                  (ustr ''attachment_url'', PStr (ustr ''http://files/f.txt''))]] ?c1 0 s2
       = (Inr 1, ?c1\<lparr>total_attachments := total_attachments ?c1 + 1,
                     successful_attachments := successful_attachments ?c1 + 1\<rparr>, s3)"
      "dirs s3 = List.insert (ustr ''kb/1_A/attachments'') (dirs s2)" by blast
  have id: "dict_index stub_A (ustr ''id'') = Inr (PInt 1)"
    by (simp add: stub_A_def dict_index_def)
  have att: "py_get detail_A (ustr ''attachments'') (PList []) =
     Inr (PList [PDict [(ustr ''id'', PInt 10), (ustr ''name'', PStr (ustr ''f.txt'')),
                  (ustr ''attachment_url'', PStr (ustr ''http://files/f.txt''))]])"
    by (simp add: detail_A_def dict_get_def ustr_def)
  have tr: "truthy detail_A" by (simp add: detail_A_def)
  show ?thesis
    by (simp add: process_article_def id folder_A s2 att tr s3 Let_def del: attachments_loop.simps)
qed

lemma process_B:
  "\<exists>s'. process_article scenario_world (ustr ''kb'') True True True True stub_B c s
       = (None, stub_B, c, s')
     \<and> files s' = files s
     \<and> dirs s' = List.insert (ustr ''kb/2_B/attachments'') (List.insert (ustr ''kb/2_B'') (dirs s))"
proof -
  let ?s1 = "s\<lparr>tick := Suc (Suc (tick s)),
        dirs := List.insert (ustr ''kb/2_B/attachments'') (List.insert (ustr ''kb/2_B'') (dirs s))\<rparr>"
  let ?s2 = "?s1\<lparr>tick := tick ?s1 + 1,
        requests := requests ?s1 @ [\<lparr>url = ustr ''https://avh.freshservice.com/api/v2/solutions/articles/2'', params = []\<rparr>]\<rparr>"
  have id: "map_of stub_B (ustr ''id'') = Some (PInt 2)" by (simp add: stub_B_def)
  have f: "create_article_folder scenario_world stub_B (ustr ''kb'') s = (Inr (ustr ''kb/2_B''), ?s1)"
    by (rule folder_B)
  have g: "get_article_details scenario_world (PInt 2) ?s1 = (Inr PNone, ?s2)"
    by (rule details_B)
  have nt: "\<not> truthy PNone" by simp
  have p: "path_join (ustr ''kb/2_B'') (ustr ''attachments'') = ustr ''kb/2_B/attachments''"
    by (simp add: path_join_def startswith_def ustr_def)
  from process_article_absent [OF id f g nt, of True True True True c]
  show ?thesis unfolding p by blast
qed

lemma scenario_run:
  "\<exists>articles' s'.
     download_articles_and_attachments scenario_world [stub_A, stub_B] (ustr ''kb'')
         True True True True state0 =
       (Inr [(ustr ''total_articles'', PInt 2),
             (ustr ''successful_articles'', PInt 1),
             (ustr ''total_attachments'', PInt 1),
             (ustr ''successful_attachments'', PInt 1),
             (ustr ''download_directory'', PStr (ustr ''kb''))],
        articles', s')
     \<and> dirs s' = [ustr ''kb/2_B/attachments'', ustr ''kb/2_B'',
                   ustr ''kb/1_A/attachments'', ustr ''kb/1_A'']"
proof -
  let ?c0 = "\<lparr>successful_articles = 0, total_attachments = 0, successful_attachments = 0\<rparr>"
  let ?c1 = "\<lparr>successful_articles = 1, total_attachments = 1, successful_attachments = 1\<rparr>"
  from process_A [of ?c0 state0] obtain a1 s1 where
    a: "process_article scenario_world (ustr ''kb'') True True True True stub_A ?c0 state0
          = (None, a1, ?c1, s1)"
       "dirs s1 = List.insert (ustr ''kb/1_A/attachments'')
                    (List.insert (ustr ''kb/1_A'') (dirs state0))"
    by auto
  from process_B [of ?c1 s1] obtain s2 where
    b: "process_article scenario_world (ustr ''kb'') True True True True stub_B ?c1 s1
          = (None, stub_B, ?c1, s2)"
       "dirs s2 = List.insert (ustr ''kb/2_B/attachments'')
                    (List.insert (ustr ''kb/2_B'') (dirs s1))"
    by auto
  have d: "dirs s2 = [ustr ''kb/2_B/attachments'', ustr ''kb/2_B'',
                   ustr ''kb/1_A/attachments'', ustr ''kb/1_A'']"
    by (simp add: b(2) a(2) state0_def ustr_def)
  show ?thesis
    by (simp add: download_articles_and_attachments_def a(1) b(1) d)
qed

text \<open>
  Claim C3 says that in the end-to-end scenario exactly one per-article folder, the one
  of \<open>A\<close>, is created. The loop creates the folder of an article before it fetches the
  detail, so the folder of \<open>B\<close> and its \<open>attachments\<close> folder exist as well after the
  run; the summary is as the claim says.
\<close>

theorem absent_detail_still_creates_folder:
  "dirs (snd (snd (download_articles_and_attachments scenario_world [stub_A, stub_B] (ustr ''kb'')
         True True True True state0)))
     = [ustr ''kb/2_B/attachments'', ustr ''kb/2_B'', ustr ''kb/1_A/attachments'', ustr ''kb/1_A'']
   \<and> fst (download_articles_and_attachments scenario_world [stub_A, stub_B] (ustr ''kb'')
         True True True True state0)
     = Inr [(ustr ''total_articles'', PInt 2),
            (ustr ''successful_articles'', PInt 1),
            (ustr ''total_attachments'', PInt 1),
            (ustr ''successful_attachments'', PInt 1),
            (ustr ''download_directory'', PStr (ustr ''kb''))]"
  using scenario_run by auto

text \<open>
  Claim C3, amended. For every article stub whose folder can be created and whose detail
  fetch returns an absent detail, the round of the loop leaves the counters as they
  were (the article is not counted as successful) and writes no file; the directories
  it has created are the folder of the article and its \<open>attachments\<close> folder. In the
  end-to-end scenario the summary reports 2 articles, 1 of them successful, 1 attachment,
  1 of them successful, and the folders of both articles have been created.
\<close>

theorem absent_detail_folder_only:
  "(map_of article (ustr ''id'') = Some article_id
     \<and> create_article_folder w article base_download_dir s = (Inr folder_path, s1)
     \<and> get_article_details w article_id s1 = (Inr detailed_article, s2)
     \<and> \<not> truthy detailed_article
    \<longrightarrow>
      process_article w base_download_dir download_attachments save_pdf save_html save_text
           article c s = (None, article, c, s2)
      \<and> files s2 = files s
      \<and> dirs s2 = List.insert (path_join folder_path (ustr ''attachments''))
                    (List.insert folder_path (dirs s)))
   \<and> (\<exists>articles' s'.
        download_articles_and_attachments scenario_world [stub_A, stub_B] (ustr ''kb'')
            True True True True state0 =
          (Inr [(ustr ''total_articles'', PInt 2),
                (ustr ''successful_articles'', PInt 1),
                (ustr ''total_attachments'', PInt 1),
                (ustr ''successful_attachments'', PInt 1),
                (ustr ''download_directory'', PStr (ustr ''kb''))],
           articles', s')
        \<and> dirs s' = [ustr ''kb/2_B/attachments'', ustr ''kb/2_B'',
                      ustr ''kb/1_A/attachments'', ustr ''kb/1_A''])"
  using process_article_absent [of article article_id w base_download_dir s folder_path s1
      detailed_article s2 download_attachments save_pdf save_html save_text c] scenario_run
  by blast

theorem absent_detail_folder_only_witness:
  "\<exists>s2. process_article scenario_world (ustr ''kb'') True True True True stub_B
           \<lparr>successful_articles = 1, total_attachments = 1, successful_attachments = 1\<rparr> state0
         = (None, stub_B,
            \<lparr>successful_articles = 1, total_attachments = 1, successful_attachments = 1\<rparr>, s2)
      \<and> files s2 = Map.empty
      \<and> dirs s2 = [ustr ''kb/2_B/attachments'', ustr ''kb/2_B'']"
proof -
  have id: "map_of stub_B (ustr ''id'') = Some (PInt 2)" by (simp add: stub_B_def)
  have nt: "\<not> truthy PNone" by simp
  have p: "path_join (ustr ''kb/2_B'') (ustr ''attachments'') = ustr ''kb/2_B/attachments''"
    by (simp add: path_join_def startswith_def ustr_def)
  have d: "List.insert (ustr ''kb/2_B/attachments'') (List.insert (ustr ''kb/2_B'') (dirs state0))
      = [ustr ''kb/2_B/attachments'', ustr ''kb/2_B'']"
    by (simp add: state0_def ustr_def)
  have f: "files state0 = Map.empty" by (simp add: state0_def)
  from absent_detail_folder_only [of stub_B "PInt 2" scenario_world "ustr ''kb''" state0
      "ustr ''kb/2_B''" _ PNone _ True True True True
      "\<lparr>successful_articles = 1, total_attachments = 1, successful_attachments = 1\<rparr>"]
    id folder_B [of state0] details_B nt
  show ?thesis unfolding p d f by blast
qed

section \<open>Properties of the article materializer\<close>

text \<open>
  The four files of an article have different paths, and each step that writes changes
  the file of its own path only.
\<close>

lemma path_join_suffix_inj:
  assumes "path_join a (x @ 95 # u) = path_join a (x @ 95 # v)"
  shows "u = v"
  using assms
  by (cases x) (auto simp: path_join_def startswith_def ustr_def split: if_splits)

lemma path_join_suffix_nonempty: "path_join a (x @ 95 # u) \<noteq> []"
  by (cases x) (auto simp: path_join_def startswith_def ustr_def)

lemma article_file_distinct:
  "article_file w f i ''_article.pdf'' \<noteq> article_file w f i ''_article.html''"
  "article_file w f i ''_article.pdf'' \<noteq> article_file w f i ''_article.txt''"
  "article_file w f i ''_article.pdf'' \<noteq> article_file w f i ''_metadata.json''"
  "article_file w f i ''_article.html'' \<noteq> article_file w f i ''_article.txt''"
  "article_file w f i ''_article.html'' \<noteq> article_file w f i ''_metadata.json''"
  "article_file w f i ''_article.txt'' \<noteq> article_file w f i ''_metadata.json''"
  by (auto simp: article_file_def ustr_def dest!: path_join_suffix_inj)

lemma save_pdf_step_files:
  assumes "save_pdf_step w f i d hc sp s = (r, s')"
  shows "(\<forall>q. q \<noteq> article_file w f i ''_article.pdf'' \<longrightarrow> files s' q = files s q)
     \<and> (\<not> (sp \<and> truthy hc) \<longrightarrow> s' = s)
     \<and> r = Inr ()"
  using assms
  by (auto simp: save_pdf_step_def create_pdf_document_def io_simps
      split: if_splits sum.splits prod.splits option.splits)

lemma save_html_step_files:
  assumes "save_html_step w f i d hc sh s = (r, s')"
  shows "(\<forall>q. q \<noteq> article_file w f i ''_article.html'' \<longrightarrow> files s' q = files s q)
     \<and> (\<not> (sh \<and> truthy hc) \<longrightarrow> r = Inr () \<and> s' = s)"
  using assms
  by (auto simp: save_html_step_def io_simps Let_def
      split: if_splits sum.splits prod.splits option.splits)

lemma save_text_step_files:
  assumes "save_text_step w f i hc st s = (r, s')"
  shows "(\<forall>q. q \<noteq> article_file w f i ''_article.txt'' \<longrightarrow> files s' q = files s q)
     \<and> (st \<and> r = Inr () \<longrightarrow>
          (\<exists>t. html_to_text w hc = Inr t
             \<and> files s' (article_file w f i ''_article.txt'') = Some (Text t)))"
  using assms
  by (auto simp: save_text_step_def io_simps Let_def
      split: if_splits sum.splits prod.splits option.splits)

lemma save_text_step_written:
  assumes "html_to_text w hc = Inr t" and "encodable t"
    and "path_error (article_file w f i ''_article.txt'') = None"
    and "\<not> os_refuses w (tick s) (article_file w f i ''_article.txt'')"
    and "\<not> os_refuses w (Suc (tick s)) (article_file w f i ''_article.txt'')"
  shows "\<exists>s'. save_text_step w f i hc True s = (Inr (), s')
     \<and> files s' (article_file w f i ''_article.txt'') = Some (Text t)"
  using assms
  by (simp add: save_text_step_def io_simps Let_def)

lemma html_to_text_falsy: "\<not> truthy hc \<Longrightarrow> html_to_text w hc = Inr []"
  by (simp add: html_to_text_def)

lemma save_metadata_step_files:
  assumes "save_metadata_step w f i d s = (r, s')"
  shows "\<forall>q. q \<noteq> article_file w f i ''_metadata.json'' \<longrightarrow> files s' q = files s q"
  using assms
  by (auto simp: save_metadata_step_def io_simps Let_def
      split: if_splits sum.splits prod.splits option.splits)

lemma download_article_content_steps:
  assumes "map_of article (ustr ''id'') = Some article_id"
    and "get_article_details w article_id s = (Inr detailed_article, s1)"
    and "truthy detailed_article"
    and "py_get detailed_article (ustr ''description'') (PStr []) = Inr html_content"
    and "save_pdf_step w folder_path article_id detailed_article html_content save_pdf s1 = (r2, s2)"
    and "save_html_step w folder_path article_id detailed_article html_content save_html s2 = (r3, s3)"
    and "save_text_step w folder_path article_id html_content save_text s3 = (r4, s4)"
    and "save_metadata_step w folder_path article_id detailed_article s4 = (r5, s5)"
  shows "download_article_content w article folder_path save_pdf save_html save_text s =
     (case r2 of
        Inl e \<Rightarrow> (Inr (False, PNone), s2)
      | Inr _ \<Rightarrow>
          (case r3 of
             Inl e \<Rightarrow> (Inr (False, PNone), s3)
           | Inr _ \<Rightarrow>
               (case r4 of
                  Inl e \<Rightarrow> (Inr (False, PNone), s4)
                | Inr _ \<Rightarrow>
                    (case r5 of
                       Inl e \<Rightarrow> (Inr (False, PNone), s5)
                     | Inr _ \<Rightarrow> (Inr (True, detailed_article), s5)))))"
  using assms
  by (simp add: download_article_content_def dict_index_def bind_def lift_def return_def
      try_except_def split: sum.splits)

text \<open>
  Claim C7. Take a materialization whose detail fetch returns a detail, with body
  \<open>html_content\<close> (its \<open>description\<close>); let \<open>s2\<close> be the state after the PDF step,
  \<open>s3\<close> the state after the HTML step, and let the materialization end in any way, in
  the state \<open>s'\<close>.
  \<^item> The PDF file is changed only if \<open>save_pdf\<close> is set and the body is not empty, and
    the HTML file only if \<open>save_html\<close> is set and the body is not empty.
  \<^item> The PDF step never raises, and for an empty body the HTML step does not run.
  \<^item> With \<open>save_text\<close> set, whenever the HTML step has not raised, the body has a
    plain-text rendering \<open>t\<close> (it is a string or empty) that can be encoded, and the
    system takes the path and accepts the opening and the write of the text file, the
    file \<^verbatim>\<open>{id}_article.txt\<close> holds \<open>t\<close> at the end, whether the body is empty or
    not and whether the metadata step that follows succeeds or not.
  \<^item> In particular an empty body gives an empty text file, and a materialization that
    reports success has written the text file.
\<close>

theorem text_written_on_flag_alone:
  assumes id: "map_of article (ustr ''id'') = Some article_id"
    and fetch: "get_article_details w article_id s = (Inr detailed_article, s1)"
    and tr: "truthy detailed_article"
    and body: "py_get detailed_article (ustr ''description'') (PStr []) = Inr html_content"
    and pdf: "save_pdf_step w folder_path article_id detailed_article html_content save_pdf s1
                = (r2, s2)"
    and html: "save_html_step w folder_path article_id detailed_article html_content save_html s2
                = (r3, s3)"
    and run: "download_article_content w article folder_path save_pdf save_html save_text s = (r, s')"
  shows "(files s' (article_file w folder_path article_id ''_article.pdf'')
            \<noteq> files s (article_file w folder_path article_id ''_article.pdf'')
          \<longrightarrow> save_pdf \<and> truthy html_content)
     \<and> (files s' (article_file w folder_path article_id ''_article.html'')
            \<noteq> files s (article_file w folder_path article_id ''_article.html'')
          \<longrightarrow> save_html \<and> truthy html_content)
     \<and> r2 = Inr ()
     \<and> (\<not> truthy html_content \<longrightarrow> r3 = Inr () \<and> html_to_text w html_content = Inr [])
     \<and> (save_text \<and> r3 = Inr () \<and> html_to_text w html_content = Inr t \<and> encodable t
          \<and> path_error (article_file w folder_path article_id ''_article.txt'') = None
          \<and> \<not> os_refuses w (tick s3) (article_file w folder_path article_id ''_article.txt'')
          \<and> \<not> os_refuses w (Suc (tick s3)) (article_file w folder_path article_id ''_article.txt'')
          \<longrightarrow> files s' (article_file w folder_path article_id ''_article.txt'') = Some (Text t))
     \<and> (save_text \<and> \<not> truthy html_content
          \<and> path_error (article_file w folder_path article_id ''_article.txt'') = None
          \<and> (\<forall>t p. \<not> os_refuses w t p)
          \<longrightarrow> files s' (article_file w folder_path article_id ''_article.txt'') = Some (Text []))
     \<and> (save_text \<and> r = Inr (True, detailed_article)
          \<longrightarrow> (\<exists>t. html_to_text w html_content = Inr t
                \<and> files s' (article_file w folder_path article_id ''_article.txt'') = Some (Text t)))"
proof -
  let ?pdf = "article_file w folder_path article_id ''_article.pdf''"
  let ?html = "article_file w folder_path article_id ''_article.html''"
  let ?txt = "article_file w folder_path article_id ''_article.txt''"
  obtain r4 s4 where p4:
    "save_text_step w folder_path article_id html_content save_text s3 = (r4, s4)"
    by fastforce
  obtain r5 s5 where p5:
    "save_metadata_step w folder_path article_id detailed_article s4 = (r5, s5)"
    by fastforce
  have f1: "files s1 = files s"
    using get_article_details_frame [OF fetch] by simp
  note f2 = save_pdf_step_files [OF pdf]
  note f3 = save_html_step_files [OF html]
  note f4 = save_text_step_files [OF p4]
  note f5 = save_metadata_step_files [OF p5]
  note d = article_file_distinct [of w folder_path article_id]
  have r2: "r2 = Inr ()" using f2 by simp
  have res: "(r, s') =
     (case r3 of
        Inl e \<Rightarrow> (Inr (False, PNone), s3)
      | Inr _ \<Rightarrow>
          (case r4 of
             Inl e \<Rightarrow> (Inr (False, PNone), s4)
           | Inr _ \<Rightarrow>
               (case r5 of
                  Inl e \<Rightarrow> (Inr (False, PNone), s5)
                | Inr _ \<Rightarrow> (Inr (True, detailed_article), s5))))"
    using download_article_content_steps [OF id fetch tr body pdf html p4 p5] run r2 by simp
  have stop: "s' = s3 \<or> s' = s4 \<or> s' = s5"
    using res by (auto split: sum.splits)
  have reached: "s' = s5" if "r3 = Inr ()" "r4 = Inr ()"
    using res that by (auto split: sum.splits)
  have txt_kept: "files s5 ?txt = files s4 ?txt" using f5 d by auto
  have pdf_later: "files s3 ?pdf = files s2 ?pdf" "files s4 ?pdf = files s2 ?pdf"
    "files s5 ?pdf = files s2 ?pdf"
    using f3 f4 f5 d by auto
  have html_later: "files s2 ?html = files s ?html" "files s4 ?html = files s3 ?html"
    "files s5 ?html = files s3 ?html"
    using f1 f2 f4 f5 d by auto
  have a: "files s' ?pdf \<noteq> files s ?pdf \<longrightarrow> save_pdf \<and> truthy html_content"
  proof
    assume "files s' ?pdf \<noteq> files s ?pdf"
    with stop pdf_later f1 have "files s2 ?pdf \<noteq> files s1 ?pdf" by auto
    with f2 show "save_pdf \<and> truthy html_content" by auto
  qed
  have b: "files s' ?html \<noteq> files s ?html \<longrightarrow> save_html \<and> truthy html_content"
  proof
    assume "files s' ?html \<noteq> files s ?html"
    with stop html_later have "files s3 ?html \<noteq> files s2 ?html" by auto
    with f3 show "save_html \<and> truthy html_content" by auto
  qed
  have c: "\<not> truthy html_content \<longrightarrow> r3 = Inr () \<and> html_to_text w html_content = Inr []"
    using f3 by (auto simp: html_to_text_falsy)
  have wr: "files s' ?txt = Some (Text u)"
    if "save_text" "r3 = Inr ()" "html_to_text w html_content = Inr u" "encodable u"
      "path_error ?txt = None" "\<not> os_refuses w (tick s3) ?txt"
      "\<not> os_refuses w (Suc (tick s3)) ?txt" for u
  proof -
    from save_text_step_written [OF that(3-7)] p4 that(1)
    have "r4 = Inr ()" "files s4 ?txt = Some (Text u)" by auto
    with reached [OF that(2)] txt_kept show ?thesis by simp
  qed
  have e: "save_text \<and> \<not> truthy html_content \<and> path_error ?txt = None
        \<and> (\<forall>t p. \<not> os_refuses w t p)
      \<longrightarrow> files s' ?txt = Some (Text [])"
    using c wr [of "[]"] by (auto simp: encodable_def)
  have g: "save_text \<and> r = Inr (True, detailed_article)
      \<longrightarrow> (\<exists>t. html_to_text w html_content = Inr t \<and> files s' ?txt = Some (Text t))"
  proof
    assume h: "save_text \<and> r = Inr (True, detailed_article)"
    with res have ok: "r4 = Inr ()" "s' = s5" by (auto split: sum.splits)
    with f4 h obtain t where t: "html_to_text w html_content = Inr t"
      "files s4 ?txt = Some (Text t)" by auto
    with txt_kept ok
    show "\<exists>t. html_to_text w html_content = Inr t \<and> files s' ?txt = Some (Text t)" by auto
  qed
  have w': "save_text \<and> r3 = Inr () \<and> html_to_text w html_content = Inr t \<and> encodable t
        \<and> path_error ?txt = None \<and> \<not> os_refuses w (tick s3) ?txt
        \<and> \<not> os_refuses w (Suc (tick s3)) ?txt
      \<longrightarrow> files s' ?txt = Some (Text t)"
    using wr [of t] by simp
  show ?thesis
    apply (intro conjI)
          apply (rule a)
         apply (rule b)
        apply (rule r2)
       apply (rule c)
      apply (rule w')
     apply (rule e)
    apply (rule g)
    done
qed

lemma details_E:
  "get_article_details empty_body_world (PInt 3) state0 =
     (Inr detail_E, state0\<lparr>tick := 1,
        requests := [\<lparr>url = ustr ''https://avh.freshservice.com/api/v2/solutions/articles/3'', params = []\<rparr>]\<rparr>)"
  by (simp add: get_article_details_def io_simps base_url_def str_of_int_def dict_get_def
      ustr_def empty_body_world_def failing_world_def state0_def)

lemma html_A:
  "\<exists>s3. save_html_step scenario_world (ustr ''kb/1_A'') (PInt 1) detail_A (PStr two_paragraphs)
           True s = (Inr (), s3)"
  by (simp add: save_html_step_def io_simps article_file_def path_simps html_doc_strings_def
      Let_def str_of_int_def create_html_document_def and_then_def detail_A_def dict_get_def
      int_dict_get_def status_map_def html_escape_str_def str_replace_char_def
      two_paragraphs_def ustr_def)

theorem text_written_on_flag_alone_witness:
  "files (snd (download_article_content scenario_world stub_A (ustr ''kb/1_A'') True True True state0))
      (ustr ''kb/1_A/1_article.txt'') = Some (Text [65, 10, 10, 66])
   \<and> files (snd (download_article_content empty_body_world stub_E (ustr ''kb/3_E'') True True True state0))
      (ustr ''kb/3_E/3_article.txt'') = Some (Text [])
   \<and> files (snd (download_article_content empty_body_world stub_E (ustr ''kb/3_E'') True True True state0))
      (ustr ''kb/3_E/3_article.pdf'') = None
   \<and> files (snd (download_article_content empty_body_world stub_E (ustr ''kb/3_E'') True True True state0))
      (ustr ''kb/3_E/3_article.html'') = None"
proof -
  let ?runA = "download_article_content scenario_world stub_A (ustr ''kb/1_A'') True True True state0"
  let ?runE = "download_article_content empty_body_world stub_E (ustr ''kb/3_E'') True True True state0"
  let ?s1 = "state0\<lparr>tick := tick state0 + 1,
        requests := requests state0 @ [\<lparr>url = ustr ''https://avh.freshservice.com/api/v2/solutions/articles/1'', params = []\<rparr>]\<rparr>"
  have idA: "map_of stub_A (ustr ''id'') = Some (PInt 1)" by (simp add: stub_A_def)
  have fetchA: "get_article_details scenario_world (PInt 1) state0 = (Inr detail_A, ?s1)"
    by (rule details_A)
  have trA: "truthy detail_A" by (simp add: detail_A_def)
  have bodyA: "py_get detail_A (ustr ''description'') (PStr []) = Inr (PStr two_paragraphs)"
    by (simp add: detail_A_def dict_get_def ustr_def)
  have pdfA: "save_pdf_step scenario_world (ustr ''kb/1_A'') (PInt 1) detail_A (PStr two_paragraphs)
      True ?s1 = (Inr (), ?s1)"
    by (simp add: save_pdf_step_def create_pdf_document_def io_simps)
  from html_A [of ?s1] obtain s3 where
    htmlA: "save_html_step scenario_world (ustr ''kb/1_A'') (PInt 1) detail_A (PStr two_paragraphs)
      True ?s1 = (Inr (), s3)" by blast
  have runA: "?runA = (fst ?runA, snd ?runA)" by simp
  have pathA: "article_file scenario_world (ustr ''kb/1_A'') (PInt 1) ''_article.txt''
      = ustr ''kb/1_A/1_article.txt''"
    by (simp add: article_file_def path_join_def startswith_def str_of_int_def ustr_def)
  have okA: "path_error (ustr ''kb/1_A/1_article.txt'') = None" "encodable [65, 10, 10, 66]"
    by (simp_all add: path_error_def encodable_def ustr_def)
  have A: "files (snd ?runA) (ustr ''kb/1_A/1_article.txt'') = Some (Text [65, 10, 10, 66])"
    using text_written_on_flag_alone [OF idA fetchA trA bodyA pdfA htmlA runA,
        of "[65, 10, 10, 66]"]
      html_to_text_two_paragraphs_value [of scenario_world] okA
    by (simp add: pathA)
  have id: "map_of stub_E (ustr ''id'') = Some (PInt 3)" by (simp add: stub_E_def)
  have tr: "truthy detail_E" by (simp add: detail_E_def)
  have body: "py_get detail_E (ustr ''description'') (PStr []) = Inr (PStr [])"
    by (simp add: detail_E_def dict_get_def ustr_def)
  let ?e1 = "state0\<lparr>tick := 1,
        requests := [\<lparr>url = ustr ''https://avh.freshservice.com/api/v2/solutions/articles/3'', params = []\<rparr>]\<rparr>"
  have pdfE: "save_pdf_step empty_body_world (ustr ''kb/3_E'') (PInt 3) detail_E (PStr []) True ?e1
      = (Inr (), ?e1)"
    by (simp add: save_pdf_step_def io_simps)
  have htmlE: "save_html_step empty_body_world (ustr ''kb/3_E'') (PInt 3) detail_E (PStr []) True ?e1
      = (Inr (), ?e1)"
    by (simp add: save_html_step_def io_simps)
  have run: "?runE = (fst ?runE, snd ?runE)" by simp
  have os: "\<forall>t p. \<not> os_refuses empty_body_world t p"
    by (simp add: empty_body_world_def failing_world_def)
  have paths:
    "article_file empty_body_world (ustr ''kb/3_E'') (PInt 3) ''_article.txt'' = ustr ''kb/3_E/3_article.txt''"
    "article_file empty_body_world (ustr ''kb/3_E'') (PInt 3) ''_article.pdf'' = ustr ''kb/3_E/3_article.pdf''"
    "article_file empty_body_world (ustr ''kb/3_E'') (PInt 3) ''_article.html'' = ustr ''kb/3_E/3_article.html''"
    by (simp_all add: article_file_def path_join_def startswith_def str_of_int_def ustr_def
        empty_body_world_def failing_world_def)
  have okE: "path_error (ustr ''kb/3_E/3_article.txt'') = None"
    by (simp add: path_error_def ustr_def)
  have none: "files state0 p = None" for p by (simp add: state0_def)
  have E: "files (snd ?runE) (ustr ''kb/3_E/3_article.txt'') = Some (Text [])
     \<and> files (snd ?runE) (ustr ''kb/3_E/3_article.pdf'') = None
     \<and> files (snd ?runE) (ustr ''kb/3_E/3_article.html'') = None"
    using text_written_on_flag_alone [OF id details_E tr body pdfE htmlE run] os okE
    by (simp add: paths none)
  from A E show ?thesis by simp
qed

end
